theory Spec2Isabelle
  imports Complex_Main
begin

section \<open>Data model of the shared JSON document\<close>

text \<open>
  The backend keeps all of its state in one JSON document (\<^verbatim>\<open>data.json\<close>) with the
  top-level sections \<^verbatim>\<open>profiles\<close>, \<^verbatim>\<open>vip_profiles\<close>, \<^verbatim>\<open>chats\<close>, \<^verbatim>\<open>messages\<close>,
  \<^verbatim>\<open>comments\<close>, \<^verbatim>\<open>promocodes\<close>, \<^verbatim>\<open>orders\<close> and \<^verbatim>\<open>settings\<close>. The handlers of
  \<^verbatim>\<open>main.py\<close> and \<^verbatim>\<open>admin.py\<close> read fields of the entries either with
  \<^verbatim>\<open>o["key"]\<close> or with \<^verbatim>\<open>o.get("key")\<close>; a field read with \<^verbatim>\<open>.get\<close> whose absence
  the code tolerates is an \<open>option\<close> here.

  A \<^verbatim>\<open>datetime\<close> is a number of microseconds on the local, timezone-free time line
  (\<^verbatim>\<open>datetime.now()\<close>); \<^verbatim>\<open>isoformat()\<close> and \<^verbatim>\<open>fromisoformat\<close> are inverse to each other
  on such values, so a stored ISO string is represented by the instant it denotes.
\<close>

type_synonym datetime = int

definition hours :: "int \<Rightarrow> int" where
  \<comment> \<open>\<^verbatim>\<open>timedelta(hours=h)\<close> in microseconds\<close>
  "hours h = h * 3600000000"

definition seconds :: "int \<Rightarrow> int" where
  \<comment> \<open>\<^verbatim>\<open>timedelta(seconds=s)\<close> in microseconds\<close>
  "seconds s = s * 1000000"

text \<open>
  A Python \<^verbatim>\<open>float\<close>: a finite binary64 value (held as the rational it denotes), an
  infinity or a NaN. The sign of zero is not represented; no modelled code observes it.
\<close>

datatype pyfloat = Finite rat | PosInf | NegInf | NaN

text \<open>
  The \<^verbatim>\<open>expires_at\<close> entry of an order as \<^verbatim>\<open>cleanup_expired_orders\<close> reads it:
  \<^verbatim>\<open>o.get("expires_at")\<close> is falsy (key absent, \<^verbatim>\<open>null\<close> or the empty string), or it
  is a string that \<^verbatim>\<open>datetime.fromisoformat\<close> parses, or it is any other value, on
  which \<^verbatim>\<open>datetime.fromisoformat(...) > now\<close> raises.
\<close>

datatype expiry = NoExpiry | ExpiresAt datetime | BadExpiry

record profile =
  p_id :: int
  p_name :: string
  p_visible :: bool
  p_photos :: "string list"

record chat =
  c_id :: int
  c_profile_id :: int
  c_profile_name :: string
  c_user :: "string option"
  c_created_at :: datetime

text \<open>
  A message: \<^verbatim>\<open>text\<close> can be \<^verbatim>\<open>None\<close>; \<open>m_file\<close> holds \<^verbatim>\<open>file_url\<close>, \<^verbatim>\<open>file_type\<close>
  and \<^verbatim>\<open>file_name\<close> when the message carries an attachment; \<^verbatim>\<open>is_read\<close> is read with
  \<^verbatim>\<open>m.get("is_read", False)\<close>.
\<close>

record message =
  m_id :: int
  m_chat_id :: int
  m_text :: "string option"
  m_is_from_user :: bool
  m_is_read :: bool
  m_file :: "(string \<times> string \<times> string) option"
  m_created_at :: datetime

record comment =
  cm_id :: int
  cm_profile_id :: int
  cm_text :: string

record promocode =
  pc_code :: string
  pc_discount :: int
  pc_is_active :: bool

record order =
  o_id :: int
  o_number :: "string option"
  o_profile_id :: int
  o_user :: "string option"
  o_amount :: pyfloat
  o_bonus_amount :: pyfloat
  o_total_amount :: pyfloat
  o_crypto_type :: "string option"
  o_currency :: string
  o_status :: string
  o_created_at :: datetime
  o_expires_at :: expiry
  o_booked_at :: "datetime option"

text \<open>
  \<^verbatim>\<open>settings["bonus_percentage"]\<close> is a JSON number: a Python \<^verbatim>\<open>int\<close> or \<^verbatim>\<open>float\<close>.
\<close>

datatype pynum = PyInt int | PyFloat pyfloat

record settings =
  s_bonus_percentage :: "pynum option"
  s_crypto_wallets :: "(string \<times> string) list"

record document =
  profiles :: "profile list"
  vip_profiles :: "profile list"
  chats :: "chat list"
  messages :: "message list"
  comments :: "comment list"
  promocodes :: "promocode list"
  orders :: "order list"
  settings :: settings

text \<open>The Python exceptions that the modelled code can raise.\<close>

datatype py_error = KeyError | ValueError | TypeError | AttributeError | OverflowError | OSError

text \<open>
  How a request handler ends when it does not return: an \<^verbatim>\<open>HTTPException\<close> with a status
  code, or any other exception, which the framework answers with status 500.
\<close>

datatype http_error = HTTPException nat | Unhandled py_error

section \<open>Deleting a profile (\<^verbatim>\<open>admin.py\<close>, \<^verbatim>\<open>delete_profile\<close>)\<close>

text \<open>
  \<^verbatim>\<open>
  data["profiles"] = [p for p in data["profiles"] if p["id"] != profile_id]
  profile_chats = [c for c in data["chats"] if c["profile_id"] == profile_id]
  chat_ids = [c["id"] for c in profile_chats]
  data["chats"] = [c for c in data["chats"] if c["profile_id"] != profile_id]
  data["messages"] = [m for m in data["messages"] if m["chat_id"] not in chat_ids]
  data["comments"] = [c for c in data.get("comments", []) if c["profile_id"] != profile_id]
  save_data(data)
  \<close>
  The function returns the document that is handed to \<^verbatim>\<open>save_data\<close>.
\<close>

definition delete_profile :: "int \<Rightarrow> document \<Rightarrow> document" where
  "delete_profile profile_id data =
     (let data1 = data\<lparr>profiles := filter (\<lambda>p. p_id p \<noteq> profile_id) (profiles data)\<rparr>;
          profile_chats = filter (\<lambda>c. c_profile_id c = profile_id) (chats data1);
          chat_ids = map c_id profile_chats;
          data2 = data1\<lparr>chats := filter (\<lambda>c. c_profile_id c \<noteq> profile_id) (chats data1)\<rparr>;
          data3 = data2\<lparr>messages := filter (\<lambda>m. m_chat_id m \<notin> set chat_ids) (messages data2)\<rparr>;
          data4 = data3\<lparr>comments := filter (\<lambda>c. cm_profile_id c \<noteq> profile_id) (comments data3)\<rparr>
      in data4)"

section \<open>The expiry sweep (\<^verbatim>\<open>cleanup_expired_orders\<close> in both processes)\<close>

text \<open>
  One iteration of the loop body, identical in \<^verbatim>\<open>main.py\<close> and \<^verbatim>\<open>admin.py\<close>:
  \<^verbatim>\<open>
  data["orders"] = [o for o in data.get("orders", [])
                    if o.get("status") != "unpaid" or
                       (o.get("expires_at") and datetime.fromisoformat(o["expires_at"]) > now)]
  deleted_count = initial_count - len(data["orders"])
  if deleted_count > 0: save_data(data)
  \<close>
  \<open>keep_order\<close> is the condition of the comprehension; it raises on an unpaid order whose
  \<^verbatim>\<open>expires_at\<close> does not parse. \<open>sweep_orders\<close> is the comprehension, which stops at
  the first exception (the \<^verbatim>\<open>except\<close> clause of the loop then logs and nothing is saved).
\<close>

definition keep_order :: "datetime \<Rightarrow> order \<Rightarrow> py_error + bool" where
  "keep_order now ord =
     (if o_status ord \<noteq> ''unpaid'' then Inr True
      else case o_expires_at ord of
             NoExpiry \<Rightarrow> Inr False
           | ExpiresAt t \<Rightarrow> Inr (t > now)
           | BadExpiry \<Rightarrow> Inl ValueError)"

fun sweep_orders :: "datetime \<Rightarrow> order list \<Rightarrow> py_error + order list" where
  "sweep_orders now [] = Inr []"
| "sweep_orders now (ord # os) =
     (case keep_order now ord of
        Inl e \<Rightarrow> Inl e
      | Inr k \<Rightarrow> (case sweep_orders now os of
                    Inl e \<Rightarrow> Inl e
                  | Inr os' \<Rightarrow> Inr (if k then ord # os' else os')))"

text \<open>
  The iteration on the persisted document: the result is the document on disk afterwards
  and the number of removed orders (\<open>None\<close> when the iteration ended in the \<^verbatim>\<open>except\<close>
  clause). \<^verbatim>\<open>save_data\<close> runs only when at least one order was removed.
\<close>

definition cleanup_expired_orders :: "datetime \<Rightarrow> document \<Rightarrow> document \<times> nat option" where
  "cleanup_expired_orders now data =
     (case sweep_orders now (orders data) of
        Inl e \<Rightarrow> (data, None)
      | Inr os' \<Rightarrow>
          (let deleted_count = length (orders data) - length os'
           in if deleted_count > 0 then (data\<lparr>orders := os'\<rparr>, Some deleted_count)
              else (data, Some deleted_count)))"

section \<open>Chats and messages\<close>

text \<open>
  An uploaded file as the handlers see it: its \<^verbatim>\<open>filename\<close>, the URL that
  \<^verbatim>\<open>save_uploaded_file\<close> returns for it (empty when saving failed), the kind that
  \<^verbatim>\<open>get_file_type\<close> derives from the name, and the reading of the clock when its message
  is built. Saving and classifying uploads is outside the document logic.
\<close>

record upload =
  u_filename :: string
  u_url :: string
  u_type :: string
  u_now :: datetime

definition truthy :: "string option \<Rightarrow> bool" where
  \<comment> \<open>Python truth value of an optional string: neither \<^verbatim>\<open>None\<close> nor empty\<close>
  "truthy s = (s \<noteq> None \<and> s \<noteq> Some [])"

definition new_chat :: "document \<Rightarrow> int \<Rightarrow> string \<Rightarrow> string option \<Rightarrow> datetime \<Rightarrow> chat" where
  \<comment> \<open>the chat dictionary that all three handlers build: \<^verbatim>\<open>"id": len(data["chats"]) + 1\<close>\<close>
  "new_chat data profile_id profile_name telegram_user_id now =
     \<lparr>c_id = int (length (chats data)) + 1, c_profile_id = profile_id,
      c_profile_name = profile_name, c_user = telegram_user_id, c_created_at = now\<rparr>"

definition new_message ::
  "document \<Rightarrow> int \<Rightarrow> string option \<Rightarrow> bool \<Rightarrow> (string \<times> string \<times> string) option \<Rightarrow> datetime
   \<Rightarrow> message" where
  \<comment> \<open>\<^verbatim>\<open>"id": len(data["messages"]) + 1\<close>\<close>
  "new_message data chat_id text from_user file now =
     \<lparr>m_id = int (length (messages data)) + 1, m_chat_id = chat_id, m_text = text,
      m_is_from_user = from_user, m_is_read = False, m_file = file, m_created_at = now\<rparr>"

text \<open>
  \<^verbatim>\<open>send_message\<close> of \<^verbatim>\<open>main.py\<close>. \<open>text\<close> is the stripped form field or \<^verbatim>\<open>None\<close>,
  \<open>file\<close> the upload if the form field is one, \<open>t_chat\<close> and \<open>t_msg\<close> the readings of the
  clock for a new chat and for the message.
\<close>

definition send_message ::
  "document \<Rightarrow> int \<Rightarrow> string option \<Rightarrow> string option \<Rightarrow> upload option \<Rightarrow> datetime \<Rightarrow> datetime
   \<Rightarrow> http_error + document" where
  "send_message data profile_id actual_telegram_user_id text file t_chat t_msg =
     (case find (\<lambda>p. p_id p = profile_id) (profiles data) of
        None \<Rightarrow> Inl (HTTPException 404)
      | Some profile \<Rightarrow>
          if \<not> truthy text \<and> file = None then Inl (HTTPException 400)
          else
            (let (chat, data1) =
                   (case find (\<lambda>c. c_profile_id c = profile_id \<and> c_user c = actual_telegram_user_id)
                           (chats data) of
                      Some c \<Rightarrow> (c, data)
                    | None \<Rightarrow>
                        (let c = new_chat data profile_id (p_name profile) actual_telegram_user_id t_chat
                         in (c, data\<lparr>chats := chats data @ [c]\<rparr>)));
                 message_data =
                   (case file of
                      Some f \<Rightarrow>
                        if u_filename f \<noteq> []
                        then new_message data1 (c_id chat)
                               (Some (case text of None \<Rightarrow> [] | Some t \<Rightarrow> t)) True
                               (Some (u_url f, u_type f, u_filename f)) t_msg
                        else new_message data1 (c_id chat) text True None t_msg
                    | None \<Rightarrow> new_message data1 (c_id chat) text True None t_msg)
             in Inr (data1\<lparr>messages := messages data1 @ [message_data]\<rparr>)))"

text \<open>\<^verbatim>\<open>str.lower()\<close> on the ASCII letters, and the test \<^verbatim>\<open>sub in s\<close>.\<close>

definition lower_char :: "char \<Rightarrow> char" where
  "lower_char c =
     (case map_of (zip ''ABCDEFGHIJKLMNOPQRSTUVWXYZ'' ''abcdefghijklmnopqrstuvwxyz'') c of
        Some l \<Rightarrow> l
      | None \<Rightarrow> c)"

definition lower :: "string \<Rightarrow> string" where
  "lower s = map lower_char s"

fun starts_with :: "string \<Rightarrow> string \<Rightarrow> bool" where
  "starts_with [] s = True"
| "starts_with (x # xs) [] = False"
| "starts_with (x # xs) (y # ys) = (x = y \<and> starts_with xs ys)"

fun contains_sub :: "string \<Rightarrow> string \<Rightarrow> bool" where
  "contains_sub sub [] = (sub = [])"
| "contains_sub sub (y # ys) = (starts_with sub (y # ys) \<or> contains_sub sub ys)"

definition is_payment_confirmation :: "string \<Rightarrow> bool" where
  \<comment> \<open>\<^verbatim>\<open>text and "payment successful" in text.lower()\<close>\<close>
  "is_payment_confirmation text = (text \<noteq> [] \<and> contains_sub ''payment successful'' (lower text))"

fun update_last :: "('a \<Rightarrow> bool) \<Rightarrow> ('a \<Rightarrow> 'a) \<Rightarrow> 'a list \<Rightarrow> 'a list" where
  \<comment> \<open>mutate, in place, the last element that satisfies \<open>P\<close>: \<^verbatim>\<open>[o for o in xs if P(o)][-1]\<close>\<close>
  "update_last P f [] = []"
| "update_last P f (x # xs) =
     (if P x \<and> \<not> list_ex P xs then f x # xs else x # update_last P f xs)"

definition mark_booked :: "datetime \<Rightarrow> order \<Rightarrow> order" where
  "mark_booked now ord = ord\<lparr>o_status := ''booked'', o_booked_at := Some now\<rparr>"

text \<open>
  \<^verbatim>\<open>send_admin_reply_from_telegram\<close> of \<^verbatim>\<open>admin.py\<close>. The function catches every
  exception and returns nothing; the result is the document it saved, if it saved one.
\<close>

definition telegram_order_filter :: "int \<Rightarrow> string option \<Rightarrow> order \<Rightarrow> bool" where
  "telegram_order_filter profile_id telegram_user_id ord =
     (o_profile_id ord = profile_id \<and> o_status ord = ''unpaid''
      \<and> (\<not> truthy telegram_user_id \<or> o_user ord = telegram_user_id))"

definition send_admin_reply_from_telegram ::
  "document \<Rightarrow> int \<Rightarrow> string \<Rightarrow> string option \<Rightarrow> datetime \<Rightarrow> datetime \<Rightarrow> datetime
   \<Rightarrow> document option" where
  "send_admin_reply_from_telegram data profile_id text telegram_user_id t_chat t_msg t_book =
     (case find (\<lambda>p. p_id p = profile_id) (profiles data) of
        None \<Rightarrow> None
      | Some profile \<Rightarrow>
          (let found =
                 (if truthy telegram_user_id
                  then find (\<lambda>c. c_profile_id c = profile_id \<and> c_user c = telegram_user_id) (chats data)
                  else find (\<lambda>c. c_profile_id c = profile_id \<and> \<not> truthy (c_user c)) (chats data));
               (chat, data1) =
                 (case found of
                    Some c \<Rightarrow> (c, data)
                  | None \<Rightarrow>
                      (let c = new_chat data profile_id (p_name profile) telegram_user_id t_chat
                       in (c, data\<lparr>chats := chats data @ [c]\<rparr>)));
               message_data = new_message data1 (c_id chat) (Some text) False None t_msg;
               data2 = data1\<lparr>messages := messages data1 @ [message_data]\<rparr>;
               data3 =
                 (if is_payment_confirmation text
                  then data2\<lparr>orders :=
                         update_last (telegram_order_filter profile_id telegram_user_id)
                           (mark_booked t_book) (orders data2)\<rparr>
                  else data2)
           in Some data3))"

text \<open>
  \<^verbatim>\<open>send_admin_reply\<close> of \<^verbatim>\<open>admin.py\<close> (the HTTP endpoint). \<open>text\<close> is the stripped form
  field, \<open>files\<close> the uploads of the form. An \<^verbatim>\<open>HTTPException(400)\<close> raised inside the
  \<^verbatim>\<open>try\<close> block is caught by its \<^verbatim>\<open>except Exception\<close> clause and leaves as status 500.
\<close>

fun append_file_messages :: "int \<Rightarrow> string \<Rightarrow> upload list \<Rightarrow> document \<Rightarrow> document" where
  "append_file_messages chat_id text [] data = data"
| "append_file_messages chat_id text (f # fs) data =
     (if u_filename f \<noteq> [] \<and> u_url f \<noteq> []
      then append_file_messages chat_id text fs
             (data\<lparr>messages := messages data @
                [new_message data chat_id (Some text) False
                   (Some (u_url f, u_type f, u_filename f)) (u_now f)]\<rparr>)
      else append_file_messages chat_id text fs data)"

definition http_order_filter :: "int \<Rightarrow> order \<Rightarrow> bool" where
  "http_order_filter profile_id ord = (o_profile_id ord = profile_id \<and> o_status ord = ''unpaid'')"

definition send_admin_reply ::
  "document \<Rightarrow> int \<Rightarrow> int option \<Rightarrow> string option \<Rightarrow> string \<Rightarrow> upload list
   \<Rightarrow> datetime \<Rightarrow> datetime \<Rightarrow> datetime \<Rightarrow> http_error + document" where
  "send_admin_reply data profile_id chat_id telegram_user_id text files t_chat t_msg t_book =
     (case find (\<lambda>p. p_id p = profile_id) (profiles data) of
        None \<Rightarrow> Inl (HTTPException 404)
      | Some profile \<Rightarrow>
          (let found =
                 (if chat_id \<noteq> None \<and> chat_id \<noteq> Some 0
                  then find (\<lambda>c. c_id c = the chat_id) (chats data)
                  else if truthy telegram_user_id
                  then find (\<lambda>c. c_profile_id c = profile_id \<and> c_user c = telegram_user_id) (chats data)
                  else find (\<lambda>c. c_profile_id c = profile_id) (chats data));
               (chat, data1) =
                 (case found of
                    Some c \<Rightarrow> (c, data)
                  | None \<Rightarrow>
                      (let c = new_chat data profile_id (p_name profile) telegram_user_id t_chat
                       in (c, data\<lparr>chats := chats data @ [c]\<rparr>)));
               data2 = append_file_messages (c_id chat) text files data1;
               has_files = (length (messages data2) \<noteq> length (messages data1));
               has_text = (text \<noteq> []);
               data3 =
                 (if \<not> has_files \<and> has_text
                  then data2\<lparr>messages := messages data2 @
                         [new_message data2 (c_id chat) (Some text) False None t_msg]\<rparr>
                  else data2)
           in if \<not> has_files \<and> \<not> has_text then Inl (HTTPException 500)
              else Inr (if is_payment_confirmation text
                        then data3\<lparr>orders :=
                               update_last (http_order_filter profile_id) (mark_booked t_book)
                                 (orders data3)\<rparr>
                        else data3)))"

section \<open>The document store\<close>

subsection \<open>JSON values and the Python operations of the loaders\<close>

text \<open>
  What \<^verbatim>\<open>json.load\<close> returns. A dictionary keeps its keys in insertion order and has
  each key once.
\<close>

datatype json =
  JNull | JBool bool | JNum pynum | JStr string | JList "json list" | JDict "(string \<times> json) list"

text \<open>
  \<^verbatim>\<open>k in v\<close>, \<^verbatim>\<open>v[k] = x\<close>, \<^verbatim>\<open>v.get(k, d)\<close> and \<^verbatim>\<open>v[k]\<close> for a string \<open>k\<close> and any
  value \<open>v\<close>: on a list \<^verbatim>\<open>in\<close> is membership, on a string it is the substring test, on
  \<^verbatim>\<open>None\<close>, a number or a boolean it raises \<^verbatim>\<open>TypeError\<close>; only a dictionary has
  \<^verbatim>\<open>get\<close> and accepts a string subscript.
\<close>

fun py_contains :: "json \<Rightarrow> string \<Rightarrow> py_error + bool" where
  "py_contains (JDict kvs) k = Inr (map_of kvs k \<noteq> None)"
| "py_contains (JList xs) k = Inr (JStr k \<in> set xs)"
| "py_contains (JStr s) k = Inr (contains_sub k s)"
| "py_contains _ k = Inl TypeError"

fun dict_set :: "(string \<times> 'v) list \<Rightarrow> string \<Rightarrow> 'v \<Rightarrow> (string \<times> 'v) list" where
  "dict_set [] k v = [(k, v)]"
| "dict_set ((k', v') # kvs) k v = (if k' = k then (k, v) # kvs else (k', v') # dict_set kvs k v)"

fun py_setitem :: "json \<Rightarrow> string \<Rightarrow> json \<Rightarrow> py_error + json" where
  "py_setitem (JDict kvs) k v = Inr (JDict (dict_set kvs k v))"
| "py_setitem _ k v = Inl TypeError"

fun py_get :: "json \<Rightarrow> string \<Rightarrow> json \<Rightarrow> py_error + json" where
  "py_get (JDict kvs) k d = Inr (case map_of kvs k of Some x \<Rightarrow> x | None \<Rightarrow> d)"
| "py_get _ k d = Inl AttributeError"

fun py_getitem :: "json \<Rightarrow> string \<Rightarrow> py_error + json" where
  "py_getitem (JDict kvs) k = (case map_of kvs k of Some x \<Rightarrow> Inr x | None \<Rightarrow> Inl KeyError)"
| "py_getitem _ k = Inl TypeError"

definition and_then :: "'e + 'a \<Rightarrow> ('a \<Rightarrow> 'e + 'b) \<Rightarrow> 'e + 'b" where
  \<comment> \<open>sequencing of statements that can raise\<close>
  "and_then m f = (case m of Inl e \<Rightarrow> Inl e | Inr x \<Rightarrow> f x)"

definition ensure_key :: "string \<Rightarrow> json \<Rightarrow> json \<Rightarrow> py_error + json" where
  \<comment> \<open>\<^verbatim>\<open>if k not in data: data[k] = d\<close>\<close>
  "ensure_key k d data =
     and_then (py_contains data k) (\<lambda>present. if present then Inr data else py_setitem data k d)"

subsection \<open>The default and fallback documents of the two processes\<close>

definition default_banner :: json where
  "default_banner =
     (JDict
       [(''text'', (JStr ''Special Offer: 15% discount with promo code WELCOME15'')),
        (''visible'', JBool True),
        (''link'', (JStr ''https://t.me/yourchannel'')),
        (''link_text'', (JStr ''Join Channel''))])"

definition default_vip_catalogs :: json where
  "default_vip_catalogs =
     (JDict
       [(''vip'', (JDict
           [(''name'', (JStr ''VIP Catalog'')),
            (''price'', (JNum (PyInt 199))),
            (''redirect_url'', (JStr ''https://t.me/vip_channel'')),
            (''visible'', JBool True),
            (''preview_count'', (JNum (PyInt 3))),
            (''preview_profiles'', (JList
               [(JDict
                 [(''name'', (JStr ''Anna'')),
                  (''age'', (JNum (PyInt 23))),
                  (''city'', (JStr ''Moscow'')),
                  (''photo'', (JStr ''''))]),
                (JDict
                 [(''name'', (JStr ''Sofia'')),
                  (''age'', (JNum (PyInt 21))),
                  (''city'', (JStr ''Saint Petersburg'')),
                  (''photo'', (JStr ''''))]),
                (JDict
                 [(''name'', (JStr ''Maria'')),
                  (''age'', (JNum (PyInt 25))),
                  (''city'', (JStr ''Kazan'')),
                  (''photo'', (JStr ''''))])]))])),
        (''extra_vip'', (JDict
           [(''name'', (JStr ''Extra VIP'')),
            (''price'', (JNum (PyInt 699))),
            (''redirect_url'', (JStr ''https://t.me/extra_vip_channel'')),
            (''visible'', JBool True),
            (''preview_count'', (JNum (PyInt 3))),
            (''preview_profiles'', (JList
               [(JDict
                 [(''name'', (JStr ''Elena'')),
                  (''age'', (JNum (PyInt 22))),
                  (''city'', (JStr ''Novosibirsk'')),
                  (''photo'', (JStr ''''))]),
                (JDict
                 [(''name'', (JStr ''Victoria'')),
                  (''age'', (JNum (PyInt 24))),
                  (''city'', (JStr ''Yekaterinburg'')),
                  (''photo'', (JStr ''''))]),
                (JDict
                 [(''name'', (JStr ''Daria'')),
                  (''age'', (JNum (PyInt 20))),
                  (''city'', (JStr ''Krasnoyarsk'')),
                  (''photo'', (JStr ''''))])]))])),
        (''secret'', (JDict
           [(''name'', (JStr ''Secret Catalog'')),
            (''price'', (JNum (PyInt 2499))),
            (''redirect_url'', (JStr ''https://t.me/secret_channel'')),
            (''visible'', JBool True),
            (''preview_count'', (JNum (PyInt 3))),
            (''preview_profiles'', (JList
               [(JDict
                 [(''name'', (JStr ''Anastasia'')),
                  (''age'', (JNum (PyInt 26))),
                  (''city'', (JStr ''Vladivostok'')),
                  (''photo'', (JStr ''''))]),
                (JDict
                 [(''name'', (JStr ''Polina'')),
                  (''age'', (JNum (PyInt 23))),
                  (''city'', (JStr ''Rostov'')),
                  (''photo'', (JStr ''''))]),
                (JDict
                 [(''name'', (JStr ''Alina'')),
                  (''age'', (JNum (PyInt 21))),
                  (''city'', (JStr ''Sochi'')),
                  (''photo'', (JStr ''''))])]))]))])"

definition main_default_wallets :: json where
  "main_default_wallets =
     (JDict
       [(''trc20'', (JStr ''TY76gU8J9o8j7U6tY5r4E3W2Q1'')),
        (''erc20'', (JStr ''0x8a9C6e5D8b0E2a1F3c4B6E7D8C9A0B1C2D3E4F5'')),
        (''bnb'', (JStr ''bnb1q3e5r7t9y1u3i5o7p9l1k3j5h7g9f2d4s6q8w0''))])"

definition admin_default_wallets :: json where
  "admin_default_wallets =
     (JDict
       [(''trc20'', (JStr ''TY76gU8J9o8j7U6tY5r4E3W2Q1'')),
        (''erc20'', (JStr ''0x8a9C6e5D8b0E2a1F3c4B6E7D8C9A0B1C2D3E4F5'')),
        (''bnb'', (JStr ''bnb1q3e5r7t9y1u3i5o7p9l1k3j5h7g9f2d4s6q8w0'')),
        (''btc'', (JStr ''bc1qxy2kgdygjrsqtzq2n0yrf2493p83kkfjhx0wlh'')),
        (''zetcash'', (JStr ''ZET1234567890abcdefghijklmnopqrstuvwxyz'')),
        (''doge'', (JStr ''DH5yaieqoZN36fDVciNyRueRGvGLR3mr7L'')),
        (''dash'', (JStr ''XnPBzXq3bRhQKjVqZvXmG5jKqVmPdWZgFj'')),
        (''ltc'', (JStr ''LhK3pXq2BvRsQmNp7TyUjGkLmPqRsXwZyF'')),
        (''usdt_bep20'', (JStr ''0x8b9C7e5D9b1E3a2F4c5B7E8D9C0A1B2C3D4E5F6'')),
        (''eth'', (JStr ''0x7a8B6d4C8e0D2b1F3a4C5E6D7F8A9B0C1D2E3F4'')),
        (''usdc_erc20'', (JStr ''0x6a7B5c3D7e9C1a0F2b3D4F5E6A7B8C9D0E1F2A3''))])"

definition main_default_data :: json where
  "main_default_data =
     (JDict
       [(''profiles'', (JList [])),
        (''vip_profiles'', (JList [])),
        (''chats'', (JList [])),
        (''messages'', (JList [])),
        (''comments'', (JList [])),
        (''promocodes'', (JList [])),
        (''orders'', (JList [])),
        (''settings'', (JDict
           [(''app'', (JDict
               [(''app_name'', (JStr ''Muji'')),
                (''default_age'', (JNum (PyInt 25))),
                (''default_city'', (JStr ''Moscow'')),
                (''vip_blurred_count'', (JNum (PyInt 3))),
                (''extra_vip_blurred_count'', (JNum (PyInt 3))),
                (''secret_blurred_count'', (JNum (PyInt 3)))])),
            (''crypto_wallets'', main_default_wallets),
            (''banner'', default_banner),
            (''vip_catalogs'', default_vip_catalogs)]))])"

definition main_error_data :: json where
  "main_error_data =
     (JDict
       [(''profiles'', (JList [])),
        (''chats'', (JList [])),
        (''messages'', (JList [])),
        (''orders'', (JList [])),
        (''comments'', (JList [])),
        (''vip_profiles'', (JList [])),
        (''promocodes'', (JList [])),
        (''settings'', (JDict
           [(''crypto_wallets'', (JDict []))]))])"

definition admin_default_data :: "json \<Rightarrow> json" where
  "admin_default_data env_wallets =
     (JDict
       [(''profiles'', (JList [])),
        (''vip_profiles'', (JList [])),
        (''chats'', (JList [])),
        (''messages'', (JList [])),
        (''comments'', (JList [])),
        (''promocodes'', (JList [])),
        (''orders'', (JList [])),
        (''settings'', (JDict
           [(''crypto_wallets'', env_wallets),
            (''bonus_percentage'', (JNum (PyInt 5))),
            (''banner'', default_banner),
            (''vip_catalogs'', default_vip_catalogs)]))])"

definition admin_error_data :: json where
  "admin_error_data =
     (JDict
       [(''profiles'', (JList [])),
        (''vip_profiles'', (JList [])),
        (''chats'', (JList [])),
        (''messages'', (JList [])),
        (''comments'', (JList [])),
        (''promocodes'', (JList [])),
        (''settings'', (JDict
           [(''crypto_wallets'', admin_default_wallets),
            (''banner'', default_banner),
            (''vip_catalogs'', default_vip_catalogs)]))])"

subsection \<open>Reading the backing file\<close>

text \<open>
  The backing file as a loader finds it: absent (\<^verbatim>\<open>os.path.exists\<close> is false), a file
  on which \<^verbatim>\<open>open\<close> or \<^verbatim>\<open>json.load\<close> raises, or a file that parses to a value.
\<close>

datatype file_content = FileMissing | Unparseable | Parsed json

text \<open>
  The statements of \<^verbatim>\<open>main.py\<close>'s \<^verbatim>\<open>load_data\<close> between \<^verbatim>\<open>json.load\<close> and
  \<^verbatim>\<open>return loaded_data.copy()\<close>; \<^verbatim>\<open>copy\<close> exists on dictionaries only.
\<close>

definition main_backfill :: "json \<Rightarrow> py_error + json" where
  "main_backfill loaded_data =
     and_then (ensure_key ''settings'' (JDict []) loaded_data) (\<lambda>d1.
     and_then (py_get d1 ''settings'' (JDict [])) (\<lambda>s.
     and_then (py_contains s ''crypto_wallets'') (\<lambda>present.
     and_then (if present then Inr d1
               else and_then (py_getitem d1 ''settings'') (\<lambda>s1.
                    and_then (py_setitem s1 ''crypto_wallets'' main_default_wallets) (\<lambda>s2.
                    py_setitem d1 ''settings'' s2))) (\<lambda>d2.
     and_then (ensure_key ''orders'' (JList []) d2) (\<lambda>d3.
     and_then (ensure_key ''chats'' (JList []) d3) (\<lambda>d4.
     and_then (ensure_key ''messages'' (JList []) d4) (\<lambda>d5.
     and_then (ensure_key ''comments'' (JList []) d5) (\<lambda>d6.
     and_then (ensure_key ''vip_profiles'' (JList []) d6) (\<lambda>d7.
     case d7 of JDict kvs \<Rightarrow> Inr d7 | _ \<Rightarrow> Inl AttributeError)))))))))"

text \<open>
  The document that \<^verbatim>\<open>main.py\<close>'s \<^verbatim>\<open>load_data\<close> builds when it does not answer from its
  cache. The \<^verbatim>\<open>try\<close> block covers \<^verbatim>\<open>open\<close>, \<^verbatim>\<open>json.load\<close> and the back-filling,
  and its \<^verbatim>\<open>except Exception\<close> clause returns \<^verbatim>\<open>error_data\<close>.
\<close>

definition main_read_file :: "file_content \<Rightarrow> json" where
  "main_read_file f =
     (case f of
        FileMissing \<Rightarrow> main_default_data
      | Unparseable \<Rightarrow> main_error_data
      | Parsed v \<Rightarrow> (case main_backfill v of Inl e \<Rightarrow> main_error_data | Inr d \<Rightarrow> d))"

text \<open>
  \<^verbatim>\<open>admin.py\<close>'s \<^verbatim>\<open>load_data\<close>, which has no cache. \<open>env_wallets\<close> is what
  \<^verbatim>\<open>get_crypto_wallets_from_env()\<close> returns.
\<close>

definition ensure_setting :: "string \<Rightarrow> json \<Rightarrow> json \<Rightarrow> py_error + json" where
  \<comment> \<open>\<^verbatim>\<open>if k not in data["settings"]: data["settings"][k] = d\<close>\<close>
  "ensure_setting k d data =
     and_then (py_getitem data ''settings'') (\<lambda>s.
     and_then (py_contains s k) (\<lambda>present.
     if present then Inr data
     else and_then (py_getitem data ''settings'') (\<lambda>s1.
          and_then (py_setitem s1 k d) (\<lambda>s2.
          py_setitem data ''settings'' s2))))"

definition admin_backfill :: "json \<Rightarrow> py_error + json" where
  "admin_backfill data =
     and_then (ensure_key ''settings'' (JDict []) data) (\<lambda>d1.
     and_then (ensure_setting ''crypto_wallets'' admin_default_wallets d1) (\<lambda>d2.
     and_then (ensure_setting ''bonus_percentage'' (JNum (PyInt 5)) d2) (\<lambda>d3.
     and_then (ensure_setting ''banner'' default_banner d3) (\<lambda>d4.
     and_then (ensure_setting ''vip_catalogs'' default_vip_catalogs d4) (\<lambda>d5.
     and_then (ensure_key ''promocodes'' (JList []) d5) (\<lambda>d6.
     and_then (ensure_key ''comments'' (JList []) d6) (\<lambda>d7.
     and_then (ensure_key ''vip_profiles'' (JList []) d7) (\<lambda>d8.
     ensure_key ''orders'' (JList []) d8))))))))"

definition admin_load_data :: "json \<Rightarrow> file_content \<Rightarrow> json" where
  "admin_load_data env_wallets f =
     (case f of
        FileMissing \<Rightarrow> admin_default_data env_wallets
      | Unparseable \<Rightarrow> admin_error_data
      | Parsed v \<Rightarrow> (case admin_backfill v of Inl e \<Rightarrow> admin_error_data | Inr d \<Rightarrow> d))"

text \<open>
  A backing file is corrupt when it cannot be read or parsed, or parses to something that
  is not a JSON object.
\<close>

fun corrupt :: "file_content \<Rightarrow> bool" where
  "corrupt Unparseable = True"
| "corrupt (Parsed (JDict kvs)) = False"
| "corrupt (Parsed v) = True"
| "corrupt FileMissing = False"

subsection \<open>The cache of \<^verbatim>\<open>main.py\<close>\<close>

text \<open>
  \<^verbatim>\<open>load_data\<close> and \<^verbatim>\<open>save_data\<close> copy the top-level dictionary at every boundary
  (\<^verbatim>\<open>_data_cache.copy()\<close>, \<^verbatim>\<open>loaded_data.copy()\<close>, \<^verbatim>\<open>data.copy()\<close>), so the cached
  dictionary and a caller's dictionary are never the same object: a top-level dictionary
  is a value here. \<^verbatim>\<open>dict.copy\<close> is shallow, so the values of its keys, the section
  objects (the list of orders, the list of chats, the settings dictionary, ...), are
  shared: a top-level dictionary maps each key to the address of a section object, and
  the heap holds the section objects. Objects are never freed; an address is an index
  into the heap.
\<close>

type_synonym addr = nat
type_synonym pydict = "(string \<times> addr) list"

record store =
  st_heap :: "json list"
  st_cache :: "pydict option"
  st_timestamp :: int

definition cache_ttl :: int where
  \<comment> \<open>\<^verbatim>\<open>_cache_ttl = 5\<close> seconds, in microseconds\<close>
  "cache_ttl = seconds 5"

fun alloc_sections :: "(string \<times> json) list \<Rightarrow> json list \<Rightarrow> pydict \<times> json list" where
  \<comment> \<open>the fresh objects of a document that was just built\<close>
  "alloc_sections [] h = ([], h)"
| "alloc_sections ((k, v) # kvs) h =
     (let (d, h') = alloc_sections kvs (h @ [v]) in ((k, length h) # d, h'))"

definition entries :: "json \<Rightarrow> (string \<times> json) list" where
  "entries v = (case v of JDict kvs \<Rightarrow> kvs | _ \<Rightarrow> [])"

text \<open>
  \<open>load_data current_time current_time_check file st\<close>: the two arguments are the two
  readings of \<^verbatim>\<open>time.time()\<close>, before and after the lock is taken. The result is the
  dictionary handed to the caller and the new state of the module.
\<close>

definition load_from_file :: "int \<Rightarrow> file_content \<Rightarrow> store \<Rightarrow> pydict \<times> store" where
  "load_from_file current_time_check file st =
     (let (d, h) = alloc_sections (entries (main_read_file file)) (st_heap st)
      in (d, st\<lparr>st_heap := h, st_cache := Some d, st_timestamp := current_time_check\<rparr>))"

definition load_data :: "int \<Rightarrow> int \<Rightarrow> file_content \<Rightarrow> store \<Rightarrow> pydict \<times> store" where
  "load_data current_time current_time_check file st =
     (case st_cache st of
        None \<Rightarrow> load_from_file current_time_check file st
      | Some c \<Rightarrow>
          if current_time - st_timestamp st < cache_ttl then (c, st)
          else if current_time_check - st_timestamp st < cache_ttl then (c, st)
          else load_from_file current_time_check file st)"

text \<open>
  What \<^verbatim>\<open>save_data\<close> does to the module state once the file is written:
  \<^verbatim>\<open>_data_cache = data.copy(); _cache_timestamp = time.time()\<close>.
\<close>

definition save_data_cache :: "pydict \<Rightarrow> int \<Rightarrow> store \<Rightarrow> store" where
  "save_data_cache data now st = st\<lparr>st_cache := Some data, st_timestamp := now\<rparr>"



definition document_of :: "store \<Rightarrow> pydict \<Rightarrow> (string \<times> json) list" where
  "document_of st data = map (\<lambda>(k, a). (k, st_heap st ! a)) data"



subsection \<open>Writing the backing file\<close>

text \<open>
  The file system maps a path to the content of the file there. A save is a sequence of
  file-system effects; a process that is killed has performed a prefix of it. Writing
  \<^verbatim>\<open>json.dump\<close>'s output is not atomic: it is one effect per character.
\<close>

type_synonym path = string
type_synonym filesystem = "(path \<times> string) list"

datatype fs_op = Truncate path | Write path char | Remove path | Rename path path

definition fs_delete :: "path \<Rightarrow> filesystem \<Rightarrow> filesystem" where
  "fs_delete p fs = filter (\<lambda>(q, c). q \<noteq> p) fs"

fun apply_op :: "fs_op \<Rightarrow> filesystem \<Rightarrow> filesystem" where
  "apply_op (Truncate p) fs = dict_set fs p []"
| "apply_op (Write p c) fs =
     (case map_of fs p of None \<Rightarrow> fs | Some old \<Rightarrow> dict_set fs p (old @ [c]))"
| "apply_op (Remove p) fs = fs_delete p fs"
| "apply_op (Rename p q) fs =
     (case map_of fs p of None \<Rightarrow> fs | Some c \<Rightarrow> dict_set (fs_delete p fs) q c)"

definition run_ops :: "fs_op list \<Rightarrow> filesystem \<Rightarrow> filesystem" where
  "run_ops ops fs = fold apply_op ops fs"

definition DATA_FILE :: path where
  "DATA_FILE = ''data.json''"

text \<open>
  \<^verbatim>\<open>save_data\<close> of \<^verbatim>\<open>main.py\<close>, with \<open>text\<close> the output of \<^verbatim>\<open>json.dump\<close>:
  \<^verbatim>\<open>
  temp_file = DATA_FILE + '.tmp'
  with open(temp_file, 'w', encoding='utf-8') as f:
      json.dump(data, f, ensure_ascii=False, indent=2)
  if os.path.exists(DATA_FILE):
      os.remove(DATA_FILE)
  os.rename(temp_file, DATA_FILE)
  \<close>
\<close>

definition main_save_ops :: "string \<Rightarrow> filesystem \<Rightarrow> fs_op list" where
  "main_save_ops text fs =
     (let temp_file = DATA_FILE @ ''.tmp''
      in [Truncate temp_file] @ map (Write temp_file) text
         @ (if map_of fs DATA_FILE \<noteq> None then [Remove DATA_FILE] else [])
         @ [Rename temp_file DATA_FILE])"

text \<open>
  \<^verbatim>\<open>save_data\<close> of \<^verbatim>\<open>admin.py\<close>:
  \<^verbatim>\<open>
  with open(DATA_FILE, 'w', encoding='utf-8') as f:
      json.dump(data, f, ensure_ascii=False, indent=2)
  \<close>
\<close>

definition admin_save_ops :: "string \<Rightarrow> fs_op list" where
  "admin_save_ops text = [Truncate DATA_FILE] @ map (Write DATA_FILE) text"

text \<open>The file system when the process is killed after the first \<open>n\<close> effects of a save.\<close>

definition crash_after :: "nat \<Rightarrow> fs_op list \<Rightarrow> filesystem \<Rightarrow> filesystem" where
  "crash_after n ops fs = run_ops (take n ops) fs"

text \<open>What a loader finds at \<^verbatim>\<open>DATA_FILE\<close>, given the parser \<open>parse\<close> (\<^verbatim>\<open>json.load\<close>).\<close>

definition read_data_file :: "(string \<rightharpoonup> json) \<Rightarrow> filesystem \<Rightarrow> file_content" where
  "read_data_file parse fs =
     (case map_of fs DATA_FILE of
        None \<Rightarrow> FileMissing
      | Some text \<Rightarrow> (case parse text of None \<Rightarrow> Unparseable | Some v \<Rightarrow> Parsed v))"

text \<open>
  What the sweep removes: an unpaid order whose \<^verbatim>\<open>expires_at\<close> is falsy, or parses to
  an instant that is not after \<open>now\<close>.
\<close>

definition sweep_removes :: "datetime \<Rightarrow> order \<Rightarrow> bool" where
  "sweep_removes now ord =
     (o_status ord = ''unpaid'' \<and>
      (case o_expires_at ord of
         NoExpiry \<Rightarrow> True
       | ExpiresAt t \<Rightarrow> t \<le> now
       | BadExpiry \<Rightarrow> False))"

text \<open>
  The removal criterion in the words of the specification: the status is unpaid and
  \<^verbatim>\<open>expires_at\<close> is before \<open>now\<close>.
\<close>

definition spec_sweep_removes :: "datetime \<Rightarrow> order \<Rightarrow> bool" where
  "spec_sweep_removes now ord =
     (o_status ord = ''unpaid'' \<and>
      (case o_expires_at ord of
         ExpiresAt t \<Rightarrow> t < now
       | _ \<Rightarrow> False))"

section \<open>Python floats (IEEE 754 binary64, round to nearest, ties to even)\<close>

fun bit_length :: "int \<Rightarrow> int" where
  "bit_length n = (if n \<le> 0 then 0 else 1 + bit_length (n div 2))"

declare bit_length.simps [simp del]

text \<open>\<open>round_half_even a b\<close> is the integer nearest to \<open>a / b\<close> for \<open>b > 0\<close>, ties to even.\<close>

definition round_half_even :: "int \<Rightarrow> int \<Rightarrow> int" where
  "round_half_even a b =
     (let n = a div b; r = a mod b
      in if 2 * r < b then n
         else if b < 2 * r then n + 1
         else if even n then n else n + 1)"

text \<open>For \<open>a, b > 0\<close>, \<open>floor_log2 a b\<close> is the \<open>e\<close> with \<open>2 ^ e \<le> a / b < 2 ^ (e + 1)\<close>.\<close>

definition floor_log2 :: "int \<Rightarrow> int \<Rightarrow> int" where
  "floor_log2 a b =
     (let e0 = bit_length a - bit_length b
      in if (if 0 \<le> e0 then b * 2 ^ nat e0 \<le> a else b \<le> a * 2 ^ nat (- e0))
         then e0 else e0 - 1)"

definition pow2 :: "int \<Rightarrow> rat" where
  "pow2 e = (if 0 \<le> e then 2 ^ nat e else 1 / 2 ^ nat (- e))"

text \<open>
  The binary64 value nearest to \<open>a / b\<close> (\<open>a \<ge> 0\<close>, \<open>b > 0\<close>): 53 significant bits, the
  exponent not below that of the subnormal numbers, \<open>None\<close> when the rounded value reaches
  \<open>2 ^ 1024\<close> (overflow).
\<close>

definition round_magnitude :: "int \<Rightarrow> int \<Rightarrow> rat option" where
  "round_magnitude a b =
     (if a = 0 then Some 0
      else let e = max (floor_log2 a b) (- 1022);
               t = e - 52;
               m = (if 0 \<le> t then round_half_even a (b * 2 ^ nat t)
                    else round_half_even (a * 2 ^ nat (- t)) b)
           in if 0 \<le> t \<and> 2 ^ 1024 \<le> m * 2 ^ nat t then None
              else Some (of_int m * pow2 t))"

definition round_double :: "rat \<Rightarrow> pyfloat" where
  "round_double q =
     (let (p, d) = quotient_of q
      in case round_magnitude \<bar>p\<bar> d of
           None \<Rightarrow> (if p < 0 then NegInf else PosInf)
         | Some v \<Rightarrow> Finite (if p < 0 then - v else v))"

text \<open>Python's \<^verbatim>\<open>x * y\<close>, \<^verbatim>\<open>x + y\<close> and \<^verbatim>\<open>x <= 0\<close> on floats.\<close>

fun fmul :: "pyfloat \<Rightarrow> pyfloat \<Rightarrow> pyfloat" where
  "fmul NaN _ = NaN"
| "fmul _ NaN = NaN"
| "fmul (Finite x) (Finite y) = round_double (x * y)"
| "fmul (Finite x) PosInf = (if x = 0 then NaN else if 0 < x then PosInf else NegInf)"
| "fmul (Finite x) NegInf = (if x = 0 then NaN else if 0 < x then NegInf else PosInf)"
| "fmul PosInf (Finite y) = (if y = 0 then NaN else if 0 < y then PosInf else NegInf)"
| "fmul NegInf (Finite y) = (if y = 0 then NaN else if 0 < y then NegInf else PosInf)"
| "fmul PosInf PosInf = PosInf"
| "fmul PosInf NegInf = NegInf"
| "fmul NegInf PosInf = NegInf"
| "fmul NegInf NegInf = PosInf"

fun fadd :: "pyfloat \<Rightarrow> pyfloat \<Rightarrow> pyfloat" where
  "fadd NaN _ = NaN"
| "fadd _ NaN = NaN"
| "fadd (Finite x) (Finite y) = round_double (x + y)"
| "fadd (Finite x) PosInf = PosInf"
| "fadd (Finite x) NegInf = NegInf"
| "fadd PosInf (Finite y) = PosInf"
| "fadd NegInf (Finite y) = NegInf"
| "fadd PosInf PosInf = PosInf"
| "fadd PosInf NegInf = NaN"
| "fadd NegInf PosInf = NaN"
| "fadd NegInf NegInf = NegInf"

fun fle0 :: "pyfloat \<Rightarrow> bool" where
  "fle0 (Finite x) = (x \<le> 0)"
| "fle0 NegInf = True"
| "fle0 PosInf = False"
| "fle0 NaN = False"

text \<open>
  \<^verbatim>\<open>bonus_percentage / 100\<close>: true division of an \<^verbatim>\<open>int\<close> by an \<^verbatim>\<open>int\<close> is the correctly
  rounded quotient and raises \<^verbatim>\<open>OverflowError\<close> when it is too large for a float; a
  \<^verbatim>\<open>float\<close> divided by \<^verbatim>\<open>100\<close> is the IEEE quotient.
\<close>

fun truediv100 :: "pynum \<Rightarrow> py_error + pyfloat" where
  "truediv100 (PyInt i) =
     (case round_double (of_int i / 100) of
        Finite v \<Rightarrow> Inr (Finite v)
      | _ \<Rightarrow> Inl OverflowError)"
| "truediv100 (PyFloat (Finite x)) = Inr (round_double (x / 100))"
| "truediv100 (PyFloat f) = Inr f"

section \<open>The payment endpoint (\<^verbatim>\<open>main.py\<close>, \<^verbatim>\<open>process_crypto_payment\<close>)\<close>

text \<open>
  The request body is a JSON object. \<^verbatim>\<open>payment_data["profile_id"]\<close> and
  \<^verbatim>\<open>payment_data["amount"]\<close> raise \<^verbatim>\<open>KeyError\<close> when the key is absent;
  \<^verbatim>\<open>float(payment_data["amount"])\<close> raises \<^verbatim>\<open>ValueError\<close> or \<^verbatim>\<open>TypeError\<close> on a
  value that is not a number, so the entry holds the outcome of that conversion.
  \<^verbatim>\<open>currency\<close> and \<^verbatim>\<open>wallet\<close> are read with \<^verbatim>\<open>.get\<close>.
\<close>

datatype 'a entry = KeyAbsent | Key 'a

record payment_data =
  pd_profile_id :: "int option entry"
  pd_amount :: "(py_error + pyfloat) entry"
  pd_currency :: "string option"
  pd_wallet :: "string option"

record payment_response =
  r_status :: string
  r_order_id :: int
  r_order_number :: string
  r_amount :: pyfloat
  r_bonus_amount :: pyfloat
  r_total_amount :: pyfloat
  r_wallet_address :: string
  r_expires_in :: int

fun str_nat :: "nat \<Rightarrow> string" where
  "str_nat n = (if n < 10 then [char_of (48 + n)] else str_nat (n div 10) @ [char_of (48 + n mod 10)])"

declare str_nat.simps [simp del]

definition str_int :: "int \<Rightarrow> string" where
  "str_int i = (if i < 0 then CHR ''-'' # str_nat (nat (- i)) else str_nat (nat i))"

fun max_default0 :: "int list \<Rightarrow> int" where
  \<comment> \<open>\<^verbatim>\<open>max(xs, default=0)\<close>\<close>
  "max_default0 [] = 0"
| "max_default0 (x # xs) = fold max xs x"

fun update_first :: "('a \<Rightarrow> bool) \<Rightarrow> ('a \<Rightarrow> 'a) \<Rightarrow> 'a list \<Rightarrow> 'a list" where
  \<comment> \<open>mutate, in place, the first element that satisfies \<open>P\<close>\<close>
  "update_first P f [] = []"
| "update_first P f (x # xs) = (if P x then f x # xs else x # update_first P f xs)"

definition wallet_address :: "settings \<Rightarrow> string option \<Rightarrow> string" where
  \<comment> \<open>\<^verbatim>\<open>settings.get("crypto_wallets", {}).get(wallet_type, "")\<close>\<close>
  "wallet_address s w =
     (case w of None \<Rightarrow> ''''
      | Some k \<Rightarrow> (case map_of (s_crypto_wallets s) k of None \<Rightarrow> '''' | Some a \<Rightarrow> a))"

definition is_existing_unpaid :: "int \<Rightarrow> string option \<Rightarrow> order \<Rightarrow> bool" where
  "is_existing_unpaid profile_id telegram_user_id ord =
     (o_profile_id ord = profile_id \<and> o_status ord = ''unpaid'' \<and> o_user ord = telegram_user_id)"

definition bonus_percentage_setting :: "document \<Rightarrow> pynum" where
  \<comment> \<open>\<^verbatim>\<open>data.get("settings", {}).get("bonus_percentage", 5)\<close>\<close>
  "bonus_percentage_setting data =
     (case s_bonus_percentage (settings data) of None \<Rightarrow> PyInt 5 | Some b \<Rightarrow> b)"

text \<open>
  The six assignments to \<^verbatim>\<open>existing_order\<close>, and the dictionary of a new order.
\<close>

definition quote_update ::
  "pyfloat \<Rightarrow> pyfloat \<Rightarrow> pyfloat \<Rightarrow> string option \<Rightarrow> string \<Rightarrow> datetime \<Rightarrow> order \<Rightarrow> order" where
  "quote_update amount bonus_amount total_amount wallet_type currency now ord =
     ord\<lparr>o_amount := amount, o_bonus_amount := bonus_amount, o_total_amount := total_amount,
         o_crypto_type := wallet_type, o_currency := currency,
         o_expires_at := ExpiresAt (now + hours 1)\<rparr>"

definition new_unpaid_order ::
  "int \<Rightarrow> string \<Rightarrow> int \<Rightarrow> string option \<Rightarrow> pyfloat \<Rightarrow> pyfloat \<Rightarrow> pyfloat
   \<Rightarrow> string option \<Rightarrow> string \<Rightarrow> datetime \<Rightarrow> datetime \<Rightarrow> order" where
  "new_unpaid_order max_id order_number profile_id telegram_user_id amount bonus_amount
     total_amount wallet_type currency t1 t2 =
     \<lparr>o_id = max_id + 1, o_number = Some order_number, o_profile_id = profile_id,
      o_user = telegram_user_id, o_amount = amount, o_bonus_amount = bonus_amount,
      o_total_amount = total_amount, o_crypto_type = wallet_type, o_currency = currency,
      o_status = ''unpaid'', o_created_at = t1, o_expires_at = ExpiresAt (t2 + hours 1),
      o_booked_at = None\<rparr>"

definition payment_response_of :: "document \<Rightarrow> order \<Rightarrow> string option \<Rightarrow> payment_response" where
  "payment_response_of data ord wallet_type =
     \<lparr>r_status = ''success'', r_order_id = o_id ord,
      r_order_number = (case o_number ord of None \<Rightarrow> str_int (o_id ord) | Some n \<Rightarrow> n),
      r_amount = o_amount ord, r_bonus_amount = o_bonus_amount ord,
      r_total_amount = o_total_amount ord,
      r_wallet_address = wallet_address (settings data) wallet_type,
      r_expires_in = 3600\<rparr>"

definition currency_of :: "payment_data \<Rightarrow> string" where
  \<comment> \<open>\<^verbatim>\<open>payment_data.get("currency", "USD")\<close>\<close>
  "currency_of payment_data = (case pd_currency payment_data of None \<Rightarrow> ''USD'' | Some c \<Rightarrow> c)"

text \<open>
  \<open>process_crypto_payment data payment_data telegram_user_id order_number t1 t2\<close>:
  \<open>data\<close> is what \<^verbatim>\<open>load_data()\<close> returned, \<open>order_number\<close> what
  \<^verbatim>\<open>generate_order_code()\<close> returns, \<open>t1\<close> and \<open>t2\<close> the first and second reading of
  \<^verbatim>\<open>datetime.now()\<close>. The result is the exception that leaves the handler, or the
  document handed to \<^verbatim>\<open>save_data\<close> with the response. The response repeats the amounts
  just computed, which are the amounts stored in the order.
\<close>

definition process_crypto_payment ::
  "document \<Rightarrow> payment_data \<Rightarrow> string option \<Rightarrow> string \<Rightarrow> datetime \<Rightarrow> datetime
   \<Rightarrow> http_error + (document \<times> payment_response)" where
  "process_crypto_payment data payment_data telegram_user_id order_number t1 t2 =
     (case pd_profile_id payment_data of
        KeyAbsent \<Rightarrow> Inl (Unhandled KeyError)
      | Key profile_id \<Rightarrow>
     (case pd_amount payment_data of
        KeyAbsent \<Rightarrow> Inl (Unhandled KeyError)
      | Key (Inl e) \<Rightarrow> Inl (Unhandled e)
      | Key (Inr amount) \<Rightarrow>
     (let currency = currency_of payment_data;
          wallet_type = pd_wallet payment_data
      in if profile_id = None \<or> profile_id = Some 0 \<or> fle0 amount
         then Inl (HTTPException 400)
         else
     (let pid = the profile_id;
          bonus_percentage = bonus_percentage_setting data
      in case truediv100 bonus_percentage of
           Inl e \<Rightarrow> Inl (Unhandled e)
         | Inr fraction \<Rightarrow>
     (let bonus_amount = fmul amount fraction;
          total_amount = fadd amount bonus_amount
      in case find (is_existing_unpaid pid telegram_user_id) (orders data) of
           Some existing_order \<Rightarrow>
             (let upd = quote_update amount bonus_amount total_amount wallet_type currency t1;
                  data' = data\<lparr>orders :=
                            update_first (is_existing_unpaid pid telegram_user_id) upd (orders data)\<rparr>
              in Inr (data', payment_response_of data' (upd existing_order) wallet_type))
         | None \<Rightarrow>
             (let max_id = max_default0 (map o_id (orders data));
                  ord = new_unpaid_order max_id order_number pid telegram_user_id amount
                          bonus_amount total_amount wallet_type currency t1 t2;
                  data' = data\<lparr>orders := orders data @ [ord]\<rparr>
              in Inr (data', payment_response_of data' ord wallet_type)))))))"

text \<open>
  The document on disk after the request: \<^verbatim>\<open>save_data\<close> is the last statement before the
  \<^verbatim>\<open>return\<close>, so a request that ends in an exception has written nothing.
\<close>

definition persisted_after_payment ::
  "document \<Rightarrow> payment_data \<Rightarrow> string option \<Rightarrow> string \<Rightarrow> datetime \<Rightarrow> datetime \<Rightarrow> document" where
  "persisted_after_payment data payment_data telegram_user_id order_number t1 t2 =
     (case process_crypto_payment data payment_data telegram_user_id order_number t1 t2 of
        Inl e \<Rightarrow> data
      | Inr (data', response) \<Rightarrow> data')"

section \<open>Example data\<close>

definition example_order :: "int \<Rightarrow> int \<Rightarrow> string option \<Rightarrow> string \<Rightarrow> expiry \<Rightarrow> order" where
  "example_order i pid u st ex =
     \<lparr>o_id = i, o_number = None, o_profile_id = pid, o_user = u,
      o_amount = Finite 50, o_bonus_amount = Finite (5 / 2), o_total_amount = Finite (105 / 2),
      o_crypto_type = Some ''trc20'', o_currency = ''USD'', o_status = st,
      o_created_at = 0, o_expires_at = ex, o_booked_at = None\<rparr>"

definition empty_document :: document where
  "empty_document =
     \<lparr>profiles = [], vip_profiles = [], chats = [], messages = [], comments = [],
      promocodes = [], orders = [],
      settings = \<lparr>s_bonus_percentage = None, s_crypto_wallets = []\<rparr>\<rparr>"

definition example_request :: "string option \<Rightarrow> payment_data" where
  \<comment> \<open>\<^verbatim>\<open>{"profile_id": 3, "amount": 100, "wallet": w}\<close>\<close>
  "example_request w =
     \<lparr>pd_profile_id = Key (Some 3), pd_amount = Key (Inr (Finite 100)),
      pd_currency = None, pd_wallet = w\<rparr>"

definition example_quoted_order :: "string option \<Rightarrow> datetime \<Rightarrow> order" where
  \<comment> \<open>the order that a first quote of 100 by user u1 for profile 3 creates at time 0\<close>
  "example_quoted_order w expires =
     \<lparr>o_id = 1, o_number = Some ''A1b2C3d4E5f6G7h8I9'', o_profile_id = 3, o_user = Some ''u1'',
      o_amount = Finite 100, o_bonus_amount = Finite 5, o_total_amount = Finite 105,
      o_crypto_type = w, o_currency = ''USD'', o_status = ''unpaid'',
      o_created_at = 0, o_expires_at = ExpiresAt expires, o_booked_at = None\<rparr>"

definition second_request :: payment_data where
  \<comment> \<open>\<^verbatim>\<open>{"profile_id": 3, "amount": 200, "currency": "EUR", "wallet": "erc20"}\<close>\<close>
  "second_request =
     \<lparr>pd_profile_id = Key (Some 3), pd_amount = Key (Inr (Finite 200)),
      pd_currency = Some ''EUR'', pd_wallet = Some ''erc20''\<rparr>"

definition example_requoted_order :: order where
  \<comment> \<open>the order of \<open>example_quoted_order\<close> after \<open>second_request\<close> at 60 s\<close>
  "example_requoted_order =
     \<lparr>o_id = 1, o_number = Some ''A1b2C3d4E5f6G7h8I9'', o_profile_id = 3, o_user = Some ''u1'',
      o_amount = Finite 200, o_bonus_amount = Finite 10, o_total_amount = Finite 210,
      o_crypto_type = Some ''erc20'', o_currency = ''EUR'', o_status = ''unpaid'',
      o_created_at = 0, o_expires_at = ExpiresAt (seconds 60 + hours 1), o_booked_at = None\<rparr>"

definition ten_percent_document :: document where
  \<comment> \<open>no entries, and \<^verbatim>\<open>settings["bonus_percentage"] = 10\<close>\<close>
  "ten_percent_document =
     empty_document\<lparr>settings := \<lparr>s_bonus_percentage = Some (PyInt 10), s_crypto_wallets = []\<rparr>\<rparr>"

definition example_profile :: "int \<Rightarrow> profile" where
  "example_profile i = \<lparr>p_id = i, p_name = ''Anna'', p_visible = True, p_photos = []\<rparr>"

definition example_chat :: "int \<Rightarrow> int \<Rightarrow> string option \<Rightarrow> chat" where
  "example_chat i pid u =
     \<lparr>c_id = i, c_profile_id = pid, c_profile_name = ''Anna'', c_user = u, c_created_at = 0\<rparr>"

definition example_message :: "int \<Rightarrow> int \<Rightarrow> message" where
  "example_message i cid =
     \<lparr>m_id = i, m_chat_id = cid, m_text = Some ''hello'', m_is_from_user = True,
      m_is_read = False, m_file = None, m_created_at = 0\<rparr>"

text \<open>Two profiles, each with one chat of user u1 and one message.\<close>

definition two_profiles_document :: document where
  "two_profiles_document =
     empty_document
       \<lparr>profiles := [example_profile 1, example_profile 2],
        chats := [example_chat 1 1 (Some ''u1''), example_chat 2 2 (Some ''u1'')],
        messages := [example_message 1 1, example_message 2 2]\<rparr>"

text \<open>Profile 3 with one unpaid order of user u1 and a later one of user u2.\<close>

definition two_users_document :: document where
  "two_users_document =
     empty_document
       \<lparr>profiles := [example_profile 3],
        orders := [example_order 1 3 (Some ''u1'') ''unpaid'' (ExpiresAt (hours 1)),
                   example_order 2 3 (Some ''u2'') ''unpaid'' (ExpiresAt (hours 1))]\<rparr>"

section \<open>Properties\<close>

subsection \<open>Deleting a profile\<close>

text \<open>
  C10. Deleting a profile removes exactly the profile entries with that id, the chats of
  that profile, the messages whose chat id is the id of one of those chats, and the
  comments of the profile. Every other section of the document (orders, promocodes, VIP
  profiles, settings) is the same as before, so the orders of the profile survive,
  whatever their status.
\<close>

theorem delete_profile_frame:
  "delete_profile pid data =
     data\<lparr>profiles := filter (\<lambda>p. p_id p \<noteq> pid) (profiles data),
          chats := filter (\<lambda>c. c_profile_id c \<noteq> pid) (chats data),
          messages := filter (\<lambda>m. m_chat_id m \<notin> c_id ` {c \<in> set (chats data). c_profile_id c = pid})
                        (messages data),
          comments := filter (\<lambda>c. cm_profile_id c \<noteq> pid) (comments data)\<rparr>
   \<and> orders (delete_profile pid data) = orders data
   \<and> promocodes (delete_profile pid data) = promocodes data
   \<and> vip_profiles (delete_profile pid data) = vip_profiles data
   \<and> settings (delete_profile pid data) = settings data"
  by (simp add: delete_profile_def Let_def)

subsection \<open>The expiry sweep\<close>

lemma sweep_orders_filter:
  "\<forall>ord \<in> set os. o_status ord = ''unpaid'' \<longrightarrow> o_expires_at ord \<noteq> BadExpiry \<Longrightarrow>
   sweep_orders now os = Inr (filter (\<lambda>ord. \<not> sweep_removes now ord) os)"
  by (induction os) (auto simp: keep_order_def sweep_removes_def split: expiry.splits)

lemma filter_same_length:
  assumes "length (filter P xs) = length xs"
  shows "filter P xs = xs"
proof -
  have "\<forall>x \<in> set xs. P x"
    using assms length_filter_less[of _ xs P] by force
  then show ?thesis by simp
qed

text \<open>
  C5, as stated, fails at the boundary: an unpaid order whose \<^verbatim>\<open>expires_at\<close> equals
  \<open>now\<close> is not "before now", and the sweep removes it (the code keeps an unpaid order
  only when \<^verbatim>\<open>expires_at > now\<close>).
\<close>

theorem sweep_boundary_counterexample:
  "sweep_orders 1000 [example_order 1 3 (Some ''u1'') ''unpaid'' (ExpiresAt 1000)] = Inr []
   \<and> \<not> spec_sweep_removes 1000 (example_order 1 3 (Some ''u1'') ''unpaid'' (ExpiresAt 1000))"
  by (simp add: keep_order_def spec_sweep_removes_def example_order_def)

text \<open>
  C5 (amended). When every unpaid order's \<^verbatim>\<open>expires_at\<close> is absent or parses, one sweep
  at time \<open>now\<close> removes exactly the orders that are unpaid and whose \<^verbatim>\<open>expires_at\<close> is
  absent or not after \<open>now\<close>; all other orders stay, in their order. So an unpaid order
  that expired one second ago goes, one that expires in one second stays, and an order
  whose status is not unpaid (booked) stays whatever its \<^verbatim>\<open>expires_at\<close>. The count
  reported is the number of removed orders.
\<close>

theorem cleanup_removes_exactly:
  assumes "\<forall>ord \<in> set (orders data). o_status ord = ''unpaid'' \<longrightarrow> o_expires_at ord \<noteq> BadExpiry"
  shows "sweep_orders now (orders data) = Inr (filter (\<lambda>ord. \<not> sweep_removes now ord) (orders data))
       \<and> fst (cleanup_expired_orders now data) =
           data\<lparr>orders := filter (\<lambda>ord. \<not> sweep_removes now ord) (orders data)\<rparr>
       \<and> snd (cleanup_expired_orders now data) =
           Some (length (filter (sweep_removes now) (orders data)))"
proof -
  let ?P = "\<lambda>ord. \<not> sweep_removes now ord"
  have s: "sweep_orders now (orders data) = Inr (filter ?P (orders data))"
    using assms by (rule sweep_orders_filter)
  have len: "length (orders data) - length (filter ?P (orders data))
               = length (filter (sweep_removes now) (orders data))"
    using sum_length_filter_compl[of "sweep_removes now" "orders data"] by simp
  have f: "fst (cleanup_expired_orders now data) = data\<lparr>orders := filter ?P (orders data)\<rparr>"
  proof (cases "length (orders data) - length (filter ?P (orders data)) > 0")
    case True
    then show ?thesis by (simp add: cleanup_expired_orders_def s Let_def)
  next
    case False
    then have "length (filter ?P (orders data)) = length (orders data)"
      using length_filter_le[of ?P "orders data"] by simp
    then have "filter ?P (orders data) = orders data" by (rule filter_same_length)
    then show ?thesis using False by (simp add: cleanup_expired_orders_def s Let_def)
  qed
  have n: "snd (cleanup_expired_orders now data) =
           Some (length (filter (sweep_removes now) (orders data)))"
    using len by (simp add: cleanup_expired_orders_def s Let_def)
  from s f n show ?thesis by blast
qed

text \<open>
  At \<open>now\<close> = 10 s: an unpaid order that expired at 9 s is removed, an unpaid order that
  expires at 11 s and a booked order that "expired" at 1 s are kept.
\<close>

theorem cleanup_removes_exactly_witness:
  "fst (cleanup_expired_orders (seconds 10) (empty_document\<lparr>orders :=
        [example_order 1 3 (Some ''u1'') ''unpaid'' (ExpiresAt (seconds 9)),
         example_order 2 3 (Some ''u2'') ''unpaid'' (ExpiresAt (seconds 11)),
         example_order 3 4 (Some ''u1'') ''booked'' (ExpiresAt (seconds 1))]\<rparr>))
     = empty_document\<lparr>orders :=
        [example_order 2 3 (Some ''u2'') ''unpaid'' (ExpiresAt (seconds 11)),
         example_order 3 4 (Some ''u1'') ''booked'' (ExpiresAt (seconds 1))]\<rparr>
   \<and> snd (cleanup_expired_orders (seconds 10) (empty_document\<lparr>orders :=
        [example_order 1 3 (Some ''u1'') ''unpaid'' (ExpiresAt (seconds 9)),
         example_order 2 3 (Some ''u2'') ''unpaid'' (ExpiresAt (seconds 11)),
         example_order 3 4 (Some ''u1'') ''booked'' (ExpiresAt (seconds 1))]\<rparr>)) = Some 1"
proof -
  let ?d = "empty_document\<lparr>orders :=
        [example_order 1 3 (Some ''u1'') ''unpaid'' (ExpiresAt (seconds 9)),
         example_order 2 3 (Some ''u2'') ''unpaid'' (ExpiresAt (seconds 11)),
         example_order 3 4 (Some ''u1'') ''booked'' (ExpiresAt (seconds 1))]\<rparr>"
  have h: "\<forall>ord \<in> set (orders ?d). o_status ord = ''unpaid'' \<longrightarrow> o_expires_at ord \<noteq> BadExpiry"
    by (simp add: example_order_def)
  show ?thesis
    using cleanup_removes_exactly [OF h, of "seconds 10"]
    by (simp add: sweep_removes_def example_order_def seconds_def)
qed

subsection \<open>The payment endpoint\<close>

lemma quotient_of_coprime:
  assumes "0 < b" and "coprime a b"
  shows "quotient_of (of_int a / of_int b) = (a, b)"
proof -
  have "quotient_of (Fract a b) = (a, b)"
    using assms by (simp add: quotient_of_Fract normalize_stable)
  then show ?thesis by (simp add: Fract_of_int_quotient)
qed

lemma round_magnitude_1_20:
  "round_magnitude 1 20 = Some (3602879701896397 / 72057594037927936)"
proof -
  have f: "floor_log2 1 20 = - 5"
    by (simp add: floor_log2_def bit_length.simps)
  show ?thesis
    unfolding round_magnitude_def f
    by (simp add: round_half_even_def pow2_def Let_def)
qed

lemma round_double_5_100:
  "round_double (1 / 20) = Finite (3602879701896397 / 72057594037927936)"
proof -
  have q: "quotient_of (1 / 20) = (1, 20)"
    using quotient_of_coprime[of 20 1] by simp
  show ?thesis
    by (simp add: round_double_def q round_magnitude_1_20)
qed

lemma round_magnitude_bonus_100:
  "round_magnitude 90071992547409925 18014398509481984 = Some 5"
proof -
  have f: "floor_log2 90071992547409925 18014398509481984 = 2"
    by (simp add: floor_log2_def bit_length.simps)
  show ?thesis
    unfolding round_magnitude_def f
    by (simp add: round_half_even_def pow2_def Let_def)
qed

lemma round_double_bonus_100:
  "round_double (90071992547409925 / 18014398509481984) = Finite 5"
proof -
  have c: "coprime (90071992547409925::int) 18014398509481984"
    by (simp add: coprime_iff_gcd_eq_1 gcd_non_0_int)
  have q: "quotient_of (90071992547409925 / 18014398509481984)
             = (90071992547409925, 18014398509481984)"
    using quotient_of_coprime[OF _ c] by simp
  show ?thesis
    by (simp add: round_double_def q round_magnitude_bonus_100)
qed

lemma round_magnitude_105: "round_magnitude 105 1 = Some 105"
proof -
  have f: "floor_log2 105 1 = 6"
    by (simp add: floor_log2_def bit_length.simps)
  show ?thesis
    unfolding round_magnitude_def f
    by (simp add: round_half_even_def pow2_def Let_def)
qed

lemma round_double_105: "round_double 105 = Finite 105"
  by (simp add: round_double_def round_magnitude_105)

lemma truediv100_5: "truediv100 (PyInt 5) = Inr (Finite (3602879701896397 / 72057594037927936))"
  by (simp add: round_double_5_100)

lemma fmul_100_5_percent: "fmul (Finite 100) (Finite (3602879701896397 / 72057594037927936)) = Finite 5"
  by (simp add: round_double_bonus_100)

lemma fadd_100_5: "fadd (Finite 100) (Finite 5) = Finite 105"
  by (simp add: round_double_105)

lemma find_update_first:
  "find P xs = Some x \<Longrightarrow> P (f x) \<Longrightarrow> find P (update_first P f xs) = Some (f x)"
  by (induction xs) (auto split: if_splits)

lemma find_append_new:
  "find P xs = None \<Longrightarrow> P y \<Longrightarrow> find P (xs @ [y]) = Some y"
  by (induction xs) (auto split: if_splits)


lemma payment_success:
  assumes "pd_profile_id pd = Key (Some pid)" and "pid \<noteq> 0"
    and "pd_amount pd = Key (Inr amount)" and "\<not> fle0 amount"
    and "truediv100 (bonus_percentage_setting data) = Inr fraction"
  shows "process_crypto_payment data pd u code t1 t2 =
     (let bonus = fmul amount fraction; total = fadd amount bonus;
          os' = (case find (is_existing_unpaid pid u) (orders data) of
                   Some ex \<Rightarrow> update_first (is_existing_unpaid pid u)
                               (quote_update amount bonus total (pd_wallet pd) (currency_of pd) t1)
                               (orders data)
                 | None \<Rightarrow> orders data @
                     [new_unpaid_order (max_default0 (map o_id (orders data))) code pid u amount
                        bonus total (pd_wallet pd) (currency_of pd) t1 t2]);
          ord = (case find (is_existing_unpaid pid u) (orders data) of
                   Some ex \<Rightarrow> quote_update amount bonus total (pd_wallet pd) (currency_of pd) t1 ex
                 | None \<Rightarrow> new_unpaid_order (max_default0 (map o_id (orders data))) code pid u
                        amount bonus total (pd_wallet pd) (currency_of pd) t1 t2)
      in Inr (data\<lparr>orders := os'\<rparr>, payment_response_of (data\<lparr>orders := os'\<rparr>) ord (pd_wallet pd)))"
  using assms by (simp add: process_crypto_payment_def Let_def split: option.splits)

lemma payment_success_inv:
  assumes "process_crypto_payment data pd u code t1 t2 = Inr (data', resp)"
  shows "\<exists>pid amount fraction.
           pd_profile_id pd = Key (Some pid) \<and> pid \<noteq> 0 \<and> pd_amount pd = Key (Inr amount)
         \<and> \<not> fle0 amount \<and> truediv100 (bonus_percentage_setting data) = Inr fraction"
  using assms
  by (auto simp: process_crypto_payment_def Let_def
           split: entry.splits sum.splits if_splits option.splits)

lemma quote_update_keeps_pair [simp]:
  "is_existing_unpaid pid u (quote_update a b t w c n ord) = is_existing_unpaid pid u ord"
  by (simp add: is_existing_unpaid_def quote_update_def)

lemma new_order_is_unpaid [simp]:
  "is_existing_unpaid pid u (new_unpaid_order m code pid u a b t w c t1 t2)"
  by (simp add: is_existing_unpaid_def new_unpaid_order_def)

lemma update_first_nth:
  "find P xs = Some x \<Longrightarrow>
   \<exists>i < length xs. xs ! i = x \<and> P x \<and> (\<forall>j < i. \<not> P (xs ! j)) \<and> update_first P f xs = xs[i := f x]"
proof (induction xs)
  case Nil
  then show ?case by simp
next
  case (Cons y ys)
  show ?case
  proof (cases "P y")
    case True
    with Cons.prems have "y = x" by simp
    with True show ?thesis by (intro exI[of _ 0]) simp
  next
    case False
    with Cons.prems have "find P ys = Some x" by simp
    from Cons.IH[OF this] obtain i where
      i: "i < length ys" "ys ! i = x" "P x" "\<forall>j < i. \<not> P (ys ! j)" "update_first P f ys = ys[i := f x]"
      by blast
    have "\<forall>j < Suc i. \<not> P ((y # ys) ! j)"
      using False i(4) by (auto simp: less_Suc_eq_0_disj)
    with i False show ?thesis by (intro exI[of _ "Suc i"]) simp
  qed
qed

lemma filter_update_first_length:
  "(\<And>x. P (f x) = P x) \<Longrightarrow> length (filter P (update_first P f xs)) = length (filter P xs)"
  by (induction xs) auto

lemma length_update_first [simp]: "length (update_first P f xs) = length xs"
  by (induction xs) auto

lemma find_None_filter: "find P xs = None \<Longrightarrow> filter P xs = []"
  by (induction xs) (auto split: if_splits)

lemma find_Some_filter: "find P xs = Some x \<Longrightarrow> 1 \<le> length (filter P xs)"
  by (induction xs) (auto split: if_splits)

lemma unpaid_count_after_payment:
  assumes "process_crypto_payment data pd u code t1 t2 = Inr (data', resp)"
    and "pd_profile_id pd = Key (Some pid)"
  shows "length (filter (is_existing_unpaid pid u) (orders data'))
           = max 1 (length (filter (is_existing_unpaid pid u) (orders data)))
       \<and> find (is_existing_unpaid pid u) (orders data') \<noteq> None"
proof -
  from payment_success_inv[OF assms(1)] assms(2) obtain amount fraction where
    h: "pid \<noteq> 0" "pd_amount pd = Key (Inr amount)" "\<not> fle0 amount"
       "truediv100 (bonus_percentage_setting data) = Inr fraction"
    by auto
  note s = payment_success[OF assms(2) h, of u code t1 t2]
  show ?thesis
  proof (cases "find (is_existing_unpaid pid u) (orders data)")
    case None
    with s assms(1) show ?thesis
      by (auto simp: Let_def find_None_filter find_append_new)
  next
    case (Some ex)
    then have "is_existing_unpaid pid u ex" by (auto simp: find_Some_iff)
    with Some s assms(1) find_Some_filter[OF Some] show ?thesis
      by (auto simp: Let_def filter_update_first_length find_update_first)
  qed
qed

text \<open>
  C9. A request body without the key \<^verbatim>\<open>profile_id\<close> is not answered with a client error:
  \<^verbatim>\<open>payment_data["profile_id"]\<close> raises \<^verbatim>\<open>KeyError\<close> before the validation is reached,
  and the exception leaves the handler. Nothing is written.
\<close>

theorem payment_missing_profile_id_key:
  "process_crypto_payment data
     \<lparr>pd_profile_id = KeyAbsent, pd_amount = Key (Inr (Finite 100)),
      pd_currency = None, pd_wallet = Some ''trc20''\<rparr> u code t1 t2 = Inl (Unhandled KeyError)
   \<and> persisted_after_payment data
     \<lparr>pd_profile_id = KeyAbsent, pd_amount = Key (Inr (Finite 100)),
      pd_currency = None, pd_wallet = Some ''trc20''\<rparr> u code t1 t2 = data"
  by (simp add: process_crypto_payment_def persisted_after_payment_def)

text \<open>
  The validation proper: with both keys present and a convertible amount, a null or zero
  \<^verbatim>\<open>profile_id\<close> or an amount \<open>\<le> 0\<close> is answered with status 400 and nothing is written.
\<close>

lemma payment_validation_rejects:
  assumes "pd_profile_id pd = Key p" and "pd_amount pd = Key (Inr amount)"
    and "p = None \<or> p = Some 0 \<or> fle0 amount"
  shows "process_crypto_payment data pd u code t1 t2 = Inl (HTTPException 400)
       \<and> persisted_after_payment data pd u code t1 t2 = data"
  using assms by (auto simp: process_crypto_payment_def persisted_after_payment_def Let_def)

subsection \<open>Chats, messages and payment confirmation\<close>

lemma delete_first_profile:
  "delete_profile 1 two_profiles_document
     = empty_document
         \<lparr>profiles := [example_profile 2],
          chats := [example_chat 2 2 (Some ''u1'')],
          messages := [example_message 2 2]\<rparr>"
  by (simp add: delete_profile_def two_profiles_document_def empty_document_def
        example_profile_def example_chat_def example_message_def Let_def
        del: set_filter set_map image_set)

text \<open>
  C8. Chat and message ids are \<^verbatim>\<open>len(list) + 1\<close>, so they are not monotonic once a
  profile deletion has shortened the lists: after profile 1 is deleted, one chat (id 2)
  and one message (id 2) remain, and the first message of a new user to profile 2 creates
  a second chat with id 2 and a second message with id 2.
\<close>

theorem chat_and_message_ids_collide_after_delete:
  "send_message (delete_profile 1 two_profiles_document) 2 (Some ''u2'') (Some ''hi'') None 5 5
     = Inr (empty_document
         \<lparr>profiles := [example_profile 2],
          chats := [example_chat 2 2 (Some ''u1''),
                    \<lparr>c_id = 2, c_profile_id = 2, c_profile_name = ''Anna'', c_user = Some ''u2'',
                     c_created_at = 5\<rparr>],
          messages := [example_message 2 2,
                       \<lparr>m_id = 2, m_chat_id = 2, m_text = Some ''hi'', m_is_from_user = True,
                        m_is_read = False, m_file = None, m_created_at = 5\<rparr>]\<rparr>)"
  unfolding delete_first_profile
  by (simp add: send_message_def empty_document_def
        example_profile_def example_chat_def example_message_def new_chat_def new_message_def
        truthy_def Let_def)

lemma confirmation_text: "is_payment_confirmation ''Payment successful''"
  by (simp add: is_payment_confirmation_def lower_def lower_char_def)

text \<open>
  C3. The HTTP endpoint \<^verbatim>\<open>send_admin_reply\<close> ignores \<^verbatim>\<open>telegram_user_id\<close> when it looks
  for the order to book: a reply "Payment successful" addressed to user u1 books the
  latest unpaid order of the profile, which belongs to user u2, and leaves the order of
  u1 unpaid.
\<close>

theorem admin_reply_books_other_users_order:
  "send_admin_reply two_users_document 3 None (Some ''u1'') ''Payment successful'' [] 5 5 5
     = Inr (two_users_document
         \<lparr>chats := [\<lparr>c_id = 1, c_profile_id = 3, c_profile_name = ''Anna'', c_user = Some ''u1'',
                     c_created_at = 5\<rparr>],
          messages := [\<lparr>m_id = 1, m_chat_id = 1, m_text = Some ''Payment successful'',
                        m_is_from_user = False, m_is_read = False, m_file = None,
                        m_created_at = 5\<rparr>],
          orders := [example_order 1 3 (Some ''u1'') ''unpaid'' (ExpiresAt (hours 1)),
                     mark_booked 5 (example_order 2 3 (Some ''u2'') ''unpaid'' (ExpiresAt (hours 1)))]\<rparr>)"
  by (simp add: send_admin_reply_def confirmation_text two_users_document_def empty_document_def
        example_profile_def example_order_def new_chat_def new_message_def truthy_def
        http_order_filter_def mark_booked_def Let_def)

text \<open>
  On the same document the Telegram path, which filters by the user as well, books the
  order of u1.
\<close>

lemma telegram_reply_books_own_order:
  "send_admin_reply_from_telegram two_users_document 3 ''Payment successful'' (Some ''u1'') 5 5 5
     = Some (two_users_document
         \<lparr>chats := [\<lparr>c_id = 1, c_profile_id = 3, c_profile_name = ''Anna'', c_user = Some ''u1'',
                     c_created_at = 5\<rparr>],
          messages := [\<lparr>m_id = 1, m_chat_id = 1, m_text = Some ''Payment successful'',
                        m_is_from_user = False, m_is_read = False, m_file = None,
                        m_created_at = 5\<rparr>],
          orders := [mark_booked 5 (example_order 1 3 (Some ''u1'') ''unpaid'' (ExpiresAt (hours 1))),
                     example_order 2 3 (Some ''u2'') ''unpaid'' (ExpiresAt (hours 1))]\<rparr>)"
  by (simp add: send_admin_reply_from_telegram_def confirmation_text two_users_document_def
        empty_document_def example_profile_def example_order_def new_chat_def new_message_def
        truthy_def telegram_order_filter_def mark_booked_def Let_def)

subsection \<open>The payment endpoint: amounts and the single unpaid order\<close>

lemma round_magnitude_1_10:
  "round_magnitude 1 10 = Some (3602879701896397 / 36028797018963968)"
proof -
  have f: "floor_log2 1 10 = - 4"
    by (simp add: floor_log2_def bit_length.simps)
  show ?thesis
    unfolding round_magnitude_def f
    by (simp add: round_half_even_def pow2_def Let_def)
qed

lemma round_double_10_100:
  "round_double (1 / 10) = Finite (3602879701896397 / 36028797018963968)"
proof -
  have q: "quotient_of (1 / 10) = (1, 10)"
    using quotient_of_coprime[of 10 1] by simp
  show ?thesis
    by (simp add: round_double_def q round_magnitude_1_10)
qed

lemma truediv100_10:
  "truediv100 (PyInt 10) = Inr (Finite (3602879701896397 / 36028797018963968))"
  by (simp add: round_double_10_100)

lemma round_magnitude_bonus_10:
  "round_magnitude 90071992547409925 9007199254740992 = Some 10"
proof -
  have f: "floor_log2 90071992547409925 9007199254740992 = 3"
    by (simp add: floor_log2_def bit_length.simps)
  show ?thesis
    unfolding round_magnitude_def f
    by (simp add: round_half_even_def pow2_def Let_def)
qed

lemma round_double_bonus_10:
  "round_double (90071992547409925 / 9007199254740992) = Finite 10"
proof -
  have c: "coprime (90071992547409925::int) 9007199254740992"
    by (simp add: coprime_iff_gcd_eq_1 gcd_non_0_int)
  have q: "quotient_of (90071992547409925 / 9007199254740992)
             = (90071992547409925, 9007199254740992)"
    using quotient_of_coprime[OF _ c] by simp
  show ?thesis
    by (simp add: round_double_def q round_magnitude_bonus_10)
qed

lemma round_magnitude_110: "round_magnitude 110 1 = Some 110"
proof -
  have f: "floor_log2 110 1 = 6"
    by (simp add: floor_log2_def bit_length.simps)
  show ?thesis
    unfolding round_magnitude_def f
    by (simp add: round_half_even_def pow2_def Let_def)
qed

lemma round_double_110: "round_double 110 = Finite 110"
  by (simp add: round_double_def round_magnitude_110)

lemma round_magnitude_210: "round_magnitude 210 1 = Some 210"
proof -
  have f: "floor_log2 210 1 = 7"
    by (simp add: floor_log2_def bit_length.simps)
  show ?thesis
    unfolding round_magnitude_def f
    by (simp add: round_half_even_def pow2_def Let_def)
qed

lemma round_double_210: "round_double 210 = Finite 210"
  by (simp add: round_double_def round_magnitude_210)

lemma fmul_100_10_percent:
  "fmul (Finite 100) (Finite (3602879701896397 / 36028797018963968)) = Finite 10"
  by (simp add: round_double_bonus_10)

lemma fmul_200_5_percent:
  "fmul (Finite 200) (Finite (3602879701896397 / 72057594037927936)) = Finite 10"
  by (simp add: round_double_bonus_10)

lemma fadd_100_10: "fadd (Finite 100) (Finite 10) = Finite 110"
  by (simp add: round_double_110)

lemma fadd_200_10: "fadd (Finite 200) (Finite 10) = Finite 210"
  by (simp add: round_double_210)

lemma pair_predicate:
  "is_existing_unpaid pid u
     = (\<lambda>ord. o_profile_id ord = pid \<and> o_status ord = ''unpaid'' \<and> o_user ord = u)"
  by (simp add: fun_eq_iff is_existing_unpaid_def)

text \<open>
  C6. Every request that passes validation succeeds (when \<^verbatim>\<open>bonus_percentage / 100\<close> does
  not overflow). The percentage is \<^verbatim>\<open>settings["bonus_percentage"]\<close>, and 5 when the
  settings have no such entry. The order that the request creates or updates, the first
  unpaid order of the pair in the saved document, has \<^verbatim>\<open>amount\<close> as requested,
  \<^verbatim>\<open>bonus_amount = amount * (bonus_percentage / 100)\<close> and
  \<^verbatim>\<open>total_amount = amount + bonus_amount\<close> in Python's float arithmetic, and the response
  reports the same amounts. When the pair had no unpaid order, that order is new: it is
  appended at the end, unpaid, for the requested profile and the requesting user. With
  \<^verbatim>\<open>amount = 100\<close> and a percentage of 5, absent or configured, the bonus is exactly 5.0
  and the total exactly 105.0: the rounding errors of \<^verbatim>\<open>5 / 100\<close> and of the product
  cancel.
\<close>

theorem payment_bonus_total:
  assumes "pd_profile_id pd = Key (Some pid)" and "pid \<noteq> 0"
    and "pd_amount pd = Key (Inr amount)" and "\<not> fle0 amount"
    and "truediv100 (case s_bonus_percentage (settings data) of None \<Rightarrow> PyInt 5 | Some b \<Rightarrow> b)
           = Inr fraction"
  shows "\<exists>data' resp ord.
           process_crypto_payment data pd u code t1 t2 = Inr (data', resp)
         \<and> find (\<lambda>ord. o_profile_id ord = pid \<and> o_status ord = ''unpaid'' \<and> o_user ord = u)
               (orders data') = Some ord
         \<and> o_amount ord = amount
         \<and> o_bonus_amount ord = fmul amount fraction
         \<and> o_total_amount ord = fadd amount (fmul amount fraction)
         \<and> r_order_id resp = o_id ord
         \<and> r_amount resp = amount
         \<and> r_bonus_amount resp = fmul amount fraction
         \<and> r_total_amount resp = fadd amount (fmul amount fraction)
         \<and> (find (\<lambda>ord. o_profile_id ord = pid \<and> o_status ord = ''unpaid'' \<and> o_user ord = u)
               (orders data) = None
              \<longrightarrow> orders data' = orders data @ [ord] \<and> o_profile_id ord = pid
                  \<and> o_status ord = ''unpaid'' \<and> o_user ord = u)
         \<and> (amount = Finite 100
              \<and> (s_bonus_percentage (settings data) = None
                   \<or> s_bonus_percentage (settings data) = Some (PyInt 5))
              \<longrightarrow> o_bonus_amount ord = Finite 5 \<and> o_total_amount ord = Finite 105)"
proof -
  let ?P = "\<lambda>ord. o_profile_id ord = pid \<and> o_status ord = ''unpaid'' \<and> o_user ord = u"
  have P: "is_existing_unpaid pid u = ?P" by (rule pair_predicate)
  have h5: "truediv100 (bonus_percentage_setting data) = Inr fraction"
    using assms(5) by (simp add: bonus_percentage_setting_def)
  have special: "amount = Finite 100
              \<and> (s_bonus_percentage (settings data) = None
                   \<or> s_bonus_percentage (settings data) = Some (PyInt 5))
      \<longrightarrow> fmul amount fraction = Finite 5 \<and> fadd amount (fmul amount fraction) = Finite 105"
  proof (intro impI, elim conjE)
    assume a: "amount = Finite 100"
      and b: "s_bonus_percentage (settings data) = None
                \<or> s_bonus_percentage (settings data) = Some (PyInt 5)"
    from b have "bonus_percentage_setting data = PyInt 5"
      by (auto simp: bonus_percentage_setting_def)
    with h5 have "truediv100 (PyInt 5) = Inr fraction" by simp
    then have "Inr (Finite (3602879701896397 / 72057594037927936))
                = (Inr fraction :: py_error + pyfloat)"
      by (simp only: truediv100_5)
    then have fr: "fraction = Finite (3602879701896397 / 72057594037927936)"
      by simp
    have m: "fmul amount fraction = Finite 5"
      unfolding a fr by (rule fmul_100_5_percent)
    note fadd_100_5
    with m a show "fmul amount fraction = Finite 5 \<and> fadd amount (fmul amount fraction) = Finite 105"
      by simp
  qed
  have core: "\<exists>data' resp ord.
           process_crypto_payment data pd u code t1 t2 = Inr (data', resp)
         \<and> find ?P (orders data') = Some ord
         \<and> o_amount ord = amount
         \<and> o_bonus_amount ord = fmul amount fraction
         \<and> o_total_amount ord = fadd amount (fmul amount fraction)
         \<and> r_order_id resp = o_id ord
         \<and> r_amount resp = amount
         \<and> r_bonus_amount resp = fmul amount fraction
         \<and> r_total_amount resp = fadd amount (fmul amount fraction)
         \<and> (find ?P (orders data) = None
              \<longrightarrow> orders data' = orders data @ [ord] \<and> o_profile_id ord = pid
                  \<and> o_status ord = ''unpaid'' \<and> o_user ord = u)"
  proof (cases "find (is_existing_unpaid pid u) (orders data)")
    case None
    then show ?thesis
      unfolding payment_success[OF assms(1-4) h5, of u code t1 t2] P[symmetric]
      by (simp add: Let_def find_append_new payment_response_of_def)
         (simp add: new_unpaid_order_def)
  next
    case (Some ex)
    then have "is_existing_unpaid pid u ex"
      by (auto simp: find_Some_iff)
    then show ?thesis
      unfolding payment_success[OF assms(1-4) h5, of u code t1 t2] P[symmetric] using Some
      by (simp add: Let_def find_update_first payment_response_of_def)
         (simp add: quote_update_def)
  qed
  then show ?thesis
  proof (elim exE conjE)
    fix data' resp ord
    assume c1: "process_crypto_payment data pd u code t1 t2 = Inr (data', resp)"
      and c2: "find ?P (orders data') = Some ord"
      and c3: "o_amount ord = amount"
      and c4: "o_bonus_amount ord = fmul amount fraction"
      and c5: "o_total_amount ord = fadd amount (fmul amount fraction)"
      and c6: "r_order_id resp = o_id ord"
      and c7: "r_amount resp = amount"
      and c8: "r_bonus_amount resp = fmul amount fraction"
      and c9: "r_total_amount resp = fadd amount (fmul amount fraction)"
      and c10: "find ?P (orders data) = None
              \<longrightarrow> orders data' = orders data @ [ord] \<and> o_profile_id ord = pid
                  \<and> o_status ord = ''unpaid'' \<and> o_user ord = u"
    have sp: "amount = Finite 100
              \<and> (s_bonus_percentage (settings data) = None
                   \<or> s_bonus_percentage (settings data) = Some (PyInt 5))
      \<longrightarrow> o_bonus_amount ord = Finite 5 \<and> o_total_amount ord = Finite 105"
      using special by (simp only: c4 c5)
    show ?thesis
      apply (rule exI[of _ data'], rule exI[of _ resp], rule exI[of _ ord])
      using c1 c2 c3 c4 c5 c6 c7 c8 c9 c10 sp
      by (intro conjI) assumption+
  qed
qed

text \<open>
  A first quote of 100 on the empty document, where \<^verbatim>\<open>bonus_percentage\<close> is absent
  (bonus 5.0, total 105.0), and on a document whose settings say
  \<^verbatim>\<open>"bonus_percentage": 10\<close> (bonus 10.0, total 110.0).
\<close>

theorem payment_bonus_total_witness:
  "(\<exists>data' resp ord.
       process_crypto_payment empty_document (example_request (Some ''trc20'')) (Some ''u1'')
         ''A1b2C3d4E5f6G7h8I9'' 0 0 = Inr (data', resp)
     \<and> orders data' = [ord]
     \<and> o_amount ord = Finite 100 \<and> o_bonus_amount ord = Finite 5
     \<and> o_total_amount ord = Finite 105 \<and> r_total_amount resp = Finite 105)
   \<and> (\<exists>data' resp ord.
       process_crypto_payment ten_percent_document (example_request (Some ''trc20'')) (Some ''u1'')
         ''A1b2C3d4E5f6G7h8I9'' 0 0 = Inr (data', resp)
     \<and> orders data' = [ord]
     \<and> o_amount ord = Finite 100 \<and> o_bonus_amount ord = Finite 10
     \<and> o_total_amount ord = Finite 110 \<and> r_total_amount resp = Finite 110)"
proof -
  let ?pd = "example_request (Some ''trc20'')"
  let ?P = "\<lambda>ord. o_profile_id ord = (3::int) \<and> o_status ord = ''unpaid'' \<and> o_user ord = Some ''u1''"
  have h1: "pd_profile_id ?pd = Key (Some 3)"
    and h3: "pd_amount ?pd = Key (Inr (Finite 100))"
    by (simp_all add: example_request_def)
  have h2: "(3::int) \<noteq> 0" by simp
  have h4: "\<not> fle0 (Finite 100)" by simp
  have e0: "s_bonus_percentage (settings empty_document) = None"
    and o0: "orders empty_document = []"
    by (simp_all add: empty_document_def)
  have e1: "s_bonus_percentage (settings ten_percent_document) = Some (PyInt 10)"
    and o1: "orders ten_percent_document = []"
    by (simp_all add: ten_percent_document_def empty_document_def)
  have h5: "truediv100 (case s_bonus_percentage (settings empty_document) of
                          None \<Rightarrow> PyInt 5 | Some b \<Rightarrow> b)
              = Inr (Finite (3602879701896397 / 72057594037927936))"
    unfolding e0 option.case by (rule truediv100_5)
  have k5: "truediv100 (case s_bonus_percentage (settings ten_percent_document) of
                          None \<Rightarrow> PyInt 5 | Some b \<Rightarrow> b)
              = Inr (Finite (3602879701896397 / 36028797018963968))"
    unfolding e1 option.case by (rule truediv100_10)
  have first: "\<exists>data' resp ord.
       process_crypto_payment empty_document ?pd (Some ''u1'') ''A1b2C3d4E5f6G7h8I9'' 0 0
         = Inr (data', resp)
     \<and> orders data' = [ord]
     \<and> o_amount ord = Finite 100 \<and> o_bonus_amount ord = Finite 5
     \<and> o_total_amount ord = Finite 105 \<and> r_total_amount resp = Finite 105"
    using payment_bonus_total [OF h1 h2 h3 h4 h5, of "Some ''u1''" "''A1b2C3d4E5f6G7h8I9''" 0 0]
  proof (elim exE conjE)
    fix data' resp ord
    assume c1: "process_crypto_payment empty_document ?pd (Some ''u1'') ''A1b2C3d4E5f6G7h8I9'' 0 0
                  = Inr (data', resp)"
      and c3: "o_amount ord = Finite 100"
      and c9: "r_total_amount resp
                 = fadd (Finite 100) (fmul (Finite 100) (Finite (3602879701896397 / 72057594037927936)))"
      and c10: "find ?P (orders empty_document) = None
              \<longrightarrow> orders data' = orders empty_document @ [ord] \<and> o_profile_id ord = 3
                  \<and> o_status ord = ''unpaid'' \<and> o_user ord = Some ''u1''"
      and sp: "Finite 100 = Finite 100
              \<and> (s_bonus_percentage (settings empty_document) = None
                   \<or> s_bonus_percentage (settings empty_document) = Some (PyInt 5))
              \<longrightarrow> o_bonus_amount ord = Finite 5 \<and> o_total_amount ord = Finite 105"
    from c10 have os: "orders data' = [ord]" by (simp add: o0)
    from sp e0 have b: "o_bonus_amount ord = Finite 5" "o_total_amount ord = Finite 105"
      by simp_all
    from c9 have r: "r_total_amount resp = Finite 105"
      by (simp only: fmul_100_5_percent fadd_100_5)
    show ?thesis
      apply (rule exI[of _ data'], rule exI[of _ resp], rule exI[of _ ord])
      using c1 os c3 b r by (intro conjI) assumption+
  qed
  have second: "\<exists>data' resp ord.
       process_crypto_payment ten_percent_document ?pd (Some ''u1'') ''A1b2C3d4E5f6G7h8I9'' 0 0
         = Inr (data', resp)
     \<and> orders data' = [ord]
     \<and> o_amount ord = Finite 100 \<and> o_bonus_amount ord = Finite 10
     \<and> o_total_amount ord = Finite 110 \<and> r_total_amount resp = Finite 110"
    using payment_bonus_total [OF h1 h2 h3 h4 k5, of "Some ''u1''" "''A1b2C3d4E5f6G7h8I9''" 0 0]
  proof (elim exE conjE)
    fix data' resp ord
    assume c1: "process_crypto_payment ten_percent_document ?pd (Some ''u1'')
                  ''A1b2C3d4E5f6G7h8I9'' 0 0 = Inr (data', resp)"
      and c3: "o_amount ord = Finite 100"
      and c4: "o_bonus_amount ord
                 = fmul (Finite 100) (Finite (3602879701896397 / 36028797018963968))"
      and c5: "o_total_amount ord
                 = fadd (Finite 100) (fmul (Finite 100) (Finite (3602879701896397 / 36028797018963968)))"
      and c9: "r_total_amount resp
                 = fadd (Finite 100) (fmul (Finite 100) (Finite (3602879701896397 / 36028797018963968)))"
      and c10: "find ?P (orders ten_percent_document) = None
              \<longrightarrow> orders data' = orders ten_percent_document @ [ord] \<and> o_profile_id ord = 3
                  \<and> o_status ord = ''unpaid'' \<and> o_user ord = Some ''u1''"
    from c10 have os: "orders data' = [ord]" by (simp add: o1)
    from c4 have b: "o_bonus_amount ord = Finite 10"
      by (simp only: fmul_100_10_percent)
    from c5 have t: "o_total_amount ord = Finite 110"
      by (simp only: fmul_100_10_percent fadd_100_10)
    from c9 have r: "r_total_amount resp = Finite 110"
      by (simp only: fmul_100_10_percent fadd_100_10)
    show ?thesis
      apply (rule exI[of _ data'], rule exI[of _ resp], rule exI[of _ ord])
      using c1 os c3 b t r by (intro conjI) assumption+
  qed
  from first second show ?thesis by (rule conjI)
qed

text \<open>
  C2. Two successful payment requests of the same user for the same profile, one after the
  other. The second finds the unpaid order of the pair, so it appends nothing: the saved
  document is the previous one with exactly one order changed, the first unpaid order of
  the pair, and of that order exactly six fields are written: \<^verbatim>\<open>amount\<close> as requested,
  \<^verbatim>\<open>bonus_amount = amount * (bonus_percentage / 100)\<close>,
  \<^verbatim>\<open>total_amount = amount + bonus_amount\<close>, \<^verbatim>\<open>crypto_type\<close> and \<^verbatim>\<open>currency\<close> of the
  second request (\<^verbatim>\<open>"USD"\<close> when it names none), and \<^verbatim>\<open>expires_at\<close> = the time of the
  second request + 1 hour; its id, order number, profile, user, status, creation time and
  every other order and section are as before. The number of unpaid orders of the pair
  afterwards is 1 when there was at most one before the first request (a request never
  raises it when there was one already).
\<close>

theorem quote_twice_single_unpaid:
  assumes "process_crypto_payment data pd1 u code1 t1 t2 = Inr (data1, resp1)"
    and "process_crypto_payment data1 pd2 u code2 t3 t4 = Inr (data2, resp2)"
    and "pd_profile_id pd1 = Key (Some pid)" and "pd_profile_id pd2 = Key (Some pid)"
  shows "length (filter (\<lambda>ord. o_profile_id ord = pid \<and> o_status ord = ''unpaid'' \<and> o_user ord = u)
                  (orders data2))
           = max 1 (length (filter (\<lambda>ord. o_profile_id ord = pid \<and> o_status ord = ''unpaid''
                                          \<and> o_user ord = u) (orders data)))
       \<and> length (orders data2) = length (orders data1)
       \<and> (\<exists>i amount fraction.
             i < length (orders data1)
           \<and> o_profile_id (orders data1 ! i) = pid
           \<and> o_status (orders data1 ! i) = ''unpaid''
           \<and> o_user (orders data1 ! i) = u
           \<and> (\<forall>j < i. \<not> (o_profile_id (orders data1 ! j) = pid
                          \<and> o_status (orders data1 ! j) = ''unpaid''
                          \<and> o_user (orders data1 ! j) = u))
           \<and> pd_amount pd2 = Key (Inr amount)
           \<and> truediv100 (case s_bonus_percentage (settings data1) of
                            None \<Rightarrow> PyInt 5 | Some b \<Rightarrow> b) = Inr fraction
           \<and> data2 = data1\<lparr>orders := (orders data1)
                 [i := (orders data1 ! i)
                         \<lparr>o_amount := amount,
                          o_bonus_amount := fmul amount fraction,
                          o_total_amount := fadd amount (fmul amount fraction),
                          o_crypto_type := pd_wallet pd2,
                          o_currency := (case pd_currency pd2 of None \<Rightarrow> ''USD'' | Some c \<Rightarrow> c),
                          o_expires_at := ExpiresAt (t3 + hours 1)\<rparr>]\<rparr>)"
proof -
  let ?P = "is_existing_unpaid pid u"
  let ?Q = "\<lambda>ord. o_profile_id ord = pid \<and> o_status ord = ''unpaid'' \<and> o_user ord = u"
  have P: "?P = ?Q" by (rule pair_predicate)
  from unpaid_count_after_payment[OF assms(1) assms(3)]
  have c1: "length (filter ?P (orders data1)) = max 1 (length (filter ?P (orders data)))"
    and f1: "find ?P (orders data1) \<noteq> None" by simp_all
  from unpaid_count_after_payment[OF assms(2) assms(4)]
  have c2: "length (filter ?P (orders data2)) = max 1 (length (filter ?P (orders data1)))"
    by simp
  from f1 obtain ex where ex: "find ?P (orders data1) = Some ex" by auto
  from payment_success_inv[OF assms(2)] assms(4) obtain amount fraction where
    h: "pid \<noteq> 0" "pd_amount pd2 = Key (Inr amount)" "\<not> fle0 amount"
       "truediv100 (bonus_percentage_setting data1) = Inr fraction"
    by auto
  let ?upd = "quote_update amount (fmul amount fraction)
                (fadd amount (fmul amount fraction)) (pd_wallet pd2) (currency_of pd2) t3"
  from payment_success[OF assms(4) h, of u code2 t3 t4] assms(2) ex
  have d2: "data2 = data1\<lparr>orders := update_first ?P ?upd (orders data1)\<rparr>"
    by (simp add: Let_def)
  from update_first_nth[OF ex, of ?upd] obtain i where
    i: "i < length (orders data1)" "orders data1 ! i = ex" "?P ex"
       "\<forall>j < i. \<not> ?P (orders data1 ! j)"
       "update_first ?P ?upd (orders data1) = (orders data1)[i := ?upd ex]"
    by blast
  have len: "length (orders data2) = length (orders data1)"
    unfolding d2 by simp
  have count: "length (filter ?Q (orders data2)) = max 1 (length (filter ?Q (orders data)))"
    using c1 c2 unfolding P by simp
  have fr: "truediv100 (case s_bonus_percentage (settings data1) of
                            None \<Rightarrow> PyInt 5 | Some b \<Rightarrow> b) = Inr fraction"
    using h(4) by (simp add: bonus_percentage_setting_def)
  have upd: "?upd (orders data1 ! i)
      = (orders data1 ! i)
          \<lparr>o_amount := amount,
           o_bonus_amount := fmul amount fraction,
           o_total_amount := fadd amount (fmul amount fraction),
           o_crypto_type := pd_wallet pd2,
           o_currency := (case pd_currency pd2 of None \<Rightarrow> ''USD'' | Some c \<Rightarrow> c),
           o_expires_at := ExpiresAt (t3 + hours 1)\<rparr>"
    by (simp add: quote_update_def currency_of_def)
  have d2': "data2 = data1\<lparr>orders := (orders data1)
                 [i := (orders data1 ! i)
                         \<lparr>o_amount := amount,
                          o_bonus_amount := fmul amount fraction,
                          o_total_amount := fadd amount (fmul amount fraction),
                          o_crypto_type := pd_wallet pd2,
                          o_currency := (case pd_currency pd2 of None \<Rightarrow> ''USD'' | Some c \<Rightarrow> c),
                          o_expires_at := ExpiresAt (t3 + hours 1)\<rparr>]\<rparr>"
    unfolding d2 i(5) i(2)[symmetric] upd ..
  have pi: "o_profile_id (orders data1 ! i) = pid" "o_status (orders data1 ! i) = ''unpaid''"
    "o_user (orders data1 ! i) = u"
    using i(2) i(3) by (simp_all add: is_existing_unpaid_def)
  have before: "\<forall>j < i. \<not> (o_profile_id (orders data1 ! j) = pid
                          \<and> o_status (orders data1 ! j) = ''unpaid''
                          \<and> o_user (orders data1 ! j) = u)"
    using i(4) by (simp add: is_existing_unpaid_def)
  have ex3: "\<exists>i amount fraction.
             i < length (orders data1)
           \<and> o_profile_id (orders data1 ! i) = pid
           \<and> o_status (orders data1 ! i) = ''unpaid''
           \<and> o_user (orders data1 ! i) = u
           \<and> (\<forall>j < i. \<not> (o_profile_id (orders data1 ! j) = pid
                          \<and> o_status (orders data1 ! j) = ''unpaid''
                          \<and> o_user (orders data1 ! j) = u))
           \<and> pd_amount pd2 = Key (Inr amount)
           \<and> truediv100 (case s_bonus_percentage (settings data1) of
                            None \<Rightarrow> PyInt 5 | Some b \<Rightarrow> b) = Inr fraction
           \<and> data2 = data1\<lparr>orders := (orders data1)
                 [i := (orders data1 ! i)
                         \<lparr>o_amount := amount,
                          o_bonus_amount := fmul amount fraction,
                          o_total_amount := fadd amount (fmul amount fraction),
                          o_crypto_type := pd_wallet pd2,
                          o_currency := (case pd_currency pd2 of None \<Rightarrow> ''USD'' | Some c \<Rightarrow> c),
                          o_expires_at := ExpiresAt (t3 + hours 1)\<rparr>]\<rparr>"
    apply (rule exI[of _ i], rule exI[of _ amount], rule exI[of _ fraction])
    using i(1) pi before h(2) fr d2' by (intro conjI) assumption+
  from count len ex3 show ?thesis by (intro conjI)
qed

text \<open>
  On the empty document: the first quote (100, wallet trc20) creates order 1 with bonus 5
  and total 105 in USD; the second one, a minute later (200 EUR, wallet erc20), rewrites
  that order to amount 200, bonus 10, total 210, EUR, erc20, expiring an hour after the
  second request, and keeps its id, number, status and creation time.
\<close>

theorem quote_twice_single_unpaid_witness:
  "process_crypto_payment empty_document (example_request (Some ''trc20'')) (Some ''u1'')
       ''A1b2C3d4E5f6G7h8I9'' 0 0
     = Inr (empty_document\<lparr>orders := [example_quoted_order (Some ''trc20'') (hours 1)]\<rparr>,
            payment_response_of empty_document (example_quoted_order (Some ''trc20'') (hours 1))
              (Some ''trc20''))
   \<and> process_crypto_payment
       (empty_document\<lparr>orders := [example_quoted_order (Some ''trc20'') (hours 1)]\<rparr>)
       second_request (Some ''u1'') ''Zz9Yy8Xx7Ww6Vv5Uu4'' (seconds 60) (seconds 60)
     = Inr (empty_document\<lparr>orders := [example_requoted_order]\<rparr>,
            payment_response_of empty_document example_requoted_order (Some ''erc20''))
   \<and> length (filter (\<lambda>ord. o_profile_id ord = 3 \<and> o_status ord = ''unpaid'' \<and> o_user ord = Some ''u1'')
         (orders (empty_document\<lparr>orders := [example_requoted_order]\<rparr>))) = 1
   \<and> length (orders (empty_document\<lparr>orders := [example_requoted_order]\<rparr>))
       = length (orders (empty_document\<lparr>orders := [example_quoted_order (Some ''trc20'') (hours 1)]\<rparr>))"
proof -
  let ?d1 = "empty_document\<lparr>orders := [example_quoted_order (Some ''trc20'') (hours 1)]\<rparr>"
  let ?d2 = "empty_document\<lparr>orders := [example_requoted_order]\<rparr>"
  have b0: "truediv100 (bonus_percentage_setting empty_document)
              = Inr (Finite (3602879701896397 / 72057594037927936))"
  proof -
    have "bonus_percentage_setting empty_document = PyInt 5"
      by (simp add: bonus_percentage_setting_def empty_document_def)
    then show ?thesis by (simp only: truediv100_5)
  qed
  have b1: "truediv100 (bonus_percentage_setting ?d1)
              = Inr (Finite (3602879701896397 / 72057594037927936))"
  proof -
    have "bonus_percentage_setting ?d1 = PyInt 5"
      by (simp add: bonus_percentage_setting_def empty_document_def)
    then show ?thesis by (simp only: truediv100_5)
  qed
  have p1: "pd_profile_id (example_request (Some ''trc20'')) = Key (Some 3)"
    and a1: "pd_amount (example_request (Some ''trc20'')) = Key (Inr (Finite 100))"
    by (simp_all add: example_request_def)
  have p2: "pd_profile_id second_request = Key (Some 3)"
    and a2: "pd_amount second_request = Key (Inr (Finite 200))"
    by (simp_all add: second_request_def)
  have nz: "(3::int) \<noteq> 0" by simp
  have pos1: "\<not> fle0 (Finite 100)" and pos2: "\<not> fle0 (Finite 200)" by simp_all
  have h1: "process_crypto_payment empty_document (example_request (Some ''trc20'')) (Some ''u1'')
       ''A1b2C3d4E5f6G7h8I9'' 0 0
     = Inr (?d1, payment_response_of empty_document (example_quoted_order (Some ''trc20'') (hours 1))
              (Some ''trc20''))"
    unfolding payment_success [OF p1 nz a1 pos1 b0]
    by (simp add: Let_def empty_document_def new_unpaid_order_def example_quoted_order_def
          example_request_def currency_of_def payment_response_of_def
          round_double_bonus_100 round_double_105)
  have h2: "process_crypto_payment ?d1 second_request (Some ''u1'') ''Zz9Yy8Xx7Ww6Vv5Uu4''
       (seconds 60) (seconds 60)
     = Inr (?d2, payment_response_of empty_document example_requoted_order (Some ''erc20''))"
    unfolding payment_success [OF p2 nz a2 pos2 b1]
    by (simp add: Let_def empty_document_def quote_update_def example_quoted_order_def
          example_requoted_order_def second_request_def currency_of_def payment_response_of_def
          is_existing_unpaid_def round_double_bonus_10 round_double_210)
  from quote_twice_single_unpaid [OF h1 h2 p1 p2]
  have "length (filter (\<lambda>ord. o_profile_id ord = 3 \<and> o_status ord = ''unpaid'' \<and> o_user ord = Some ''u1'')
         (orders ?d2)) = 1"
    and "length (orders ?d2) = length (orders ?d1)"
    by (simp_all add: empty_document_def)
  with h1 h2 show ?thesis by (intro conjI)
qed

subsection \<open>Saving the document\<close>

text \<open>
  C1. Neither process saves by an atomic rename over the canonical path. \<^verbatim>\<open>main.py\<close>
  writes the temporary file, then removes \<^verbatim>\<open>data.json\<close>, then renames: a process
  killed after the fifth effect of saving \<open>new\<close> over \<open>old\<close> leaves no file at the canonical
  path (only \<^verbatim>\<open>data.json.tmp\<close>), and the next load finds the file missing.
  \<^verbatim>\<open>admin.py\<close> opens \<^verbatim>\<open>data.json\<close> itself for writing: killed after the first effect
  it leaves an empty file, killed after the third a file holding the first two characters
  of the new document. In each case the previously persisted document is gone.
\<close>

theorem save_crash_loses_document:
  "map_of [(DATA_FILE, ''old'')] DATA_FILE = Some ''old''
   \<and> main_save_ops ''new'' [(DATA_FILE, ''old'')]
       = [Truncate ''data.json.tmp'', Write ''data.json.tmp'' CHR ''n'',
          Write ''data.json.tmp'' CHR ''e'', Write ''data.json.tmp'' CHR ''w'',
          Remove ''data.json'', Rename ''data.json.tmp'' ''data.json'']
   \<and> crash_after 5 (main_save_ops ''new'' [(DATA_FILE, ''old'')]) [(DATA_FILE, ''old'')]
       = [(''data.json.tmp'', ''new'')]
   \<and> read_data_file parse
         (crash_after 5 (main_save_ops ''new'' [(DATA_FILE, ''old'')]) [(DATA_FILE, ''old'')])
       = FileMissing
   \<and> admin_save_ops ''new''
       = [Truncate ''data.json'', Write ''data.json'' CHR ''n'', Write ''data.json'' CHR ''e'',
          Write ''data.json'' CHR ''w'']
   \<and> crash_after 1 (admin_save_ops ''new'') [(DATA_FILE, ''old'')] = [(''data.json'', [])]
   \<and> crash_after 3 (admin_save_ops ''new'') [(DATA_FILE, ''old'')] = [(''data.json'', ''ne'')]"
  by (simp add: crash_after_def run_ops_def main_save_ops_def admin_save_ops_def DATA_FILE_def
        fs_delete_def read_data_file_def Let_def)

subsection \<open>Loading a corrupt file\<close>

lemma main_backfill_not_object:
  "corrupt (Parsed v) \<Longrightarrow> \<exists>e. main_backfill v = Inl e"
  by (cases v) (auto simp: main_backfill_def ensure_key_def and_then_def)

lemma admin_backfill_not_object:
  "corrupt (Parsed v) \<Longrightarrow> \<exists>e. admin_backfill v = Inl e"
  by (cases v) (auto simp: admin_backfill_def ensure_key_def ensure_setting_def and_then_def)

lemma corrupt_main: "corrupt f \<Longrightarrow> main_read_file f = main_error_data"
proof (cases f)
  case (Parsed v)
  assume "corrupt f"
  with Parsed main_backfill_not_object[of v] show ?thesis
    by (auto simp: main_read_file_def)
qed (simp_all add: main_read_file_def)

lemma corrupt_admin: "corrupt f \<Longrightarrow> admin_load_data env f = admin_error_data"
proof (cases f)
  case (Parsed v)
  assume "corrupt f"
  with Parsed admin_backfill_not_object[of v] show ?thesis
    by (auto simp: admin_load_data_def)
qed (simp_all add: admin_load_data_def)

lemma alloc_sections_eq:
  "alloc_sections kvs h = (zip (map fst kvs) [length h ..< length h + length kvs], h @ map snd kvs)"
proof (induction kvs arbitrary: h)
  case Nil
  then show ?case by simp
next
  case (Cons kv kvs)
  obtain k v where kv: "kv = (k, v)" by (cases kv)
  show ?case
    unfolding kv using Cons.IH[of "h @ [v]"]
    by (simp add: upt_conv_Cons del: upt_Suc)
qed

lemma document_of_alloc:
  "alloc_sections kvs h = (d, h') \<Longrightarrow> map (\<lambda>(k, a). (k, h' ! a)) d = kvs"
proof -
  assume "alloc_sections kvs h = (d, h')"
  then have d: "d = zip (map fst kvs) [length h ..< length h + length kvs]"
    and h': "h' = h @ map snd kvs"
    by (simp_all add: alloc_sections_eq)
  show ?thesis
    unfolding d h'
    by (rule nth_equalityI) (auto simp: nth_append)
qed

lemma load_from_file_document:
  "document_of (snd (load_from_file t f st)) (fst (load_from_file t f st))
     = entries (main_read_file f)"
proof -
  obtain d h where a: "alloc_sections (entries (main_read_file f)) (st_heap st) = (d, h)"
    by (cases "alloc_sections (entries (main_read_file f)) (st_heap st)")
  from document_of_alloc[OF a] show ?thesis
    by (simp add: load_from_file_def a document_of_def)
qed

text \<open>
  C7, as stated, fails on the settings: for an unparseable file \<^verbatim>\<open>main.py\<close> falls back to
  a document whose settings hold an empty \<^verbatim>\<open>crypto_wallets\<close> dictionary and nothing else,
  which is not the settings of the default document (application settings, the three
  default wallets, the banner and the VIP catalogs).
\<close>

theorem corrupt_file_fallback_counterexample:
  "corrupt Unparseable
   \<and> main_read_file Unparseable = main_error_data
   \<and> py_getitem main_error_data ''settings'' = Inr (JDict [(''crypto_wallets'', JDict [])])
   \<and> py_getitem main_default_data ''settings''
       = Inr (JDict [(''app'', JDict [(''app_name'', JStr ''Muji''),
                                    (''default_age'', JNum (PyInt 25)),
                                    (''default_city'', JStr ''Moscow''),
                                    (''vip_blurred_count'', JNum (PyInt 3)),
                                    (''extra_vip_blurred_count'', JNum (PyInt 3)),
                                    (''secret_blurred_count'', JNum (PyInt 3))]),
                      (''crypto_wallets'', main_default_wallets),
                      (''banner'', default_banner),
                      (''vip_catalogs'', default_vip_catalogs)])
   \<and> py_getitem (main_read_file Unparseable) ''settings'' \<noteq> py_getitem main_default_data ''settings''"
  by (simp add: main_read_file_def main_error_data_def main_default_data_def)

text \<open>
  C7 (amended). For a backing file that cannot be read or parsed, or that parses to
  something other than a JSON object, neither loader raises; each returns its fixed
  fallback document. In \<^verbatim>\<open>main.py\<close> that document is also what a load that does not
  answer from its cache hands to the caller; its seven collections are empty and its
  settings are \<^verbatim>\<open>{"crypto_wallets": {}}\<close>. In \<^verbatim>\<open>admin.py\<close> six collections are empty,
  there is no \<^verbatim>\<open>orders\<close> key, and the settings hold the default wallets, banner and VIP
  catalogs but no \<^verbatim>\<open>bonus_percentage\<close>.
\<close>

theorem corrupt_file_fallback:
  assumes "corrupt f"
  shows "main_read_file f = main_error_data
       \<and> (st_cache st = None
            \<or> (cache_ttl \<le> t - st_timestamp st \<and> cache_ttl \<le> t' - st_timestamp st) \<longrightarrow>
            document_of (snd (load_data t t' f st)) (fst (load_data t t' f st))
              = entries main_error_data
            \<and> st_cache (snd (load_data t t' f st)) = Some (fst (load_data t t' f st)))
       \<and> admin_load_data env f = admin_error_data
       \<and> list_all (\<lambda>k. py_getitem main_error_data k = Inr (JList []))
            [''profiles'', ''chats'', ''messages'', ''orders'', ''comments'', ''vip_profiles'',
             ''promocodes'']
       \<and> py_getitem main_error_data ''settings'' = Inr (JDict [(''crypto_wallets'', JDict [])])
       \<and> list_all (\<lambda>k. py_getitem admin_error_data k = Inr (JList []))
            [''profiles'', ''vip_profiles'', ''chats'', ''messages'', ''comments'', ''promocodes'']
       \<and> py_getitem admin_error_data ''orders'' = Inl KeyError
       \<and> py_getitem admin_error_data ''settings''
            = Inr (JDict [(''crypto_wallets'', admin_default_wallets),
                          (''banner'', default_banner),
                          (''vip_catalogs'', default_vip_catalogs)])"
proof -
  have m: "main_read_file f = main_error_data" using assms by (rule corrupt_main)
  have a: "admin_load_data env f = admin_error_data" using assms by (rule corrupt_admin)
  have c: "st_cache st = None
            \<or> (cache_ttl \<le> t - st_timestamp st \<and> cache_ttl \<le> t' - st_timestamp st) \<longrightarrow>
            document_of (snd (load_data t t' f st)) (fst (load_data t t' f st))
              = entries main_error_data
            \<and> st_cache (snd (load_data t t' f st)) = Some (fst (load_data t t' f st))"
    using load_from_file_document[of t' f st] m
    by (auto simp: load_data_def load_from_file_def Let_def split: option.splits prod.splits)
  have s1: "list_all (\<lambda>k. py_getitem main_error_data k = Inr (JList []))
            [''profiles'', ''chats'', ''messages'', ''orders'', ''comments'', ''vip_profiles'',
             ''promocodes'']"
    and s2: "py_getitem main_error_data ''settings'' = Inr (JDict [(''crypto_wallets'', JDict [])])"
    by (simp_all add: main_error_data_def)
  have s3: "list_all (\<lambda>k. py_getitem admin_error_data k = Inr (JList []))
            [''profiles'', ''vip_profiles'', ''chats'', ''messages'', ''comments'', ''promocodes'']"
    and s4: "py_getitem admin_error_data ''orders'' = Inl KeyError"
    and s5: "py_getitem admin_error_data ''settings''
            = Inr (JDict [(''crypto_wallets'', admin_default_wallets),
                          (''banner'', default_banner),
                          (''vip_catalogs'', default_vip_catalogs)])"
    by (simp_all add: admin_error_data_def)
  from m c a s1 s2 s3 s4 s5 show ?thesis by blast
qed

text \<open>
  A backing file that holds the JSON array \<^verbatim>\<open>[]\<close>, loaded by a process whose cache is
  empty.
\<close>

theorem corrupt_file_fallback_witness:
  "corrupt (Parsed (JList []))
   \<and> main_read_file (Parsed (JList [])) = main_error_data
   \<and> document_of
        (snd (load_data 0 0 (Parsed (JList [])) \<lparr>st_heap = [], st_cache = None, st_timestamp = 0\<rparr>))
        (fst (load_data 0 0 (Parsed (JList [])) \<lparr>st_heap = [], st_cache = None, st_timestamp = 0\<rparr>))
       = entries main_error_data
   \<and> st_cache (snd (load_data 0 0 (Parsed (JList [])) \<lparr>st_heap = [], st_cache = None, st_timestamp = 0\<rparr>))
       = Some (fst (load_data 0 0 (Parsed (JList [])) \<lparr>st_heap = [], st_cache = None, st_timestamp = 0\<rparr>))
   \<and> admin_load_data admin_default_wallets (Parsed (JList [])) = admin_error_data"
  using corrupt_file_fallback
          [of "Parsed (JList [])" "\<lparr>st_heap = [], st_cache = None, st_timestamp = 0\<rparr>" 0 0
              admin_default_wallets]
  by simp

subsection \<open>What a caller shares with the cache\<close>









end
